theory Spec2Isabelle
  imports Main "HOL-Library.Word" "HOL-Library.Char_ord" "HOL-Library.List_Lexorder"
begin

chapter \<open>The Z.AI chat worker (src/worker.ts)\<close>

text \<open>
  A shallow embedding of the worker's request validation, request signing, session
  start-up, upstream stream translation and OpenAI-compatible response, followed by the
  properties its specification states.

  Conventions of the embedding.
  \<^item> A JavaScript string is a \<^typ>\<open>string\<close>: one \<^typ>\<open>char\<close> stands for one code unit.
    HOL's characters are 8 bits wide, so the strings of the model are the strings whose
    code units are below 256; every literal of the source is ASCII.
  \<^item> Functions of the JavaScript platform that the source calls but does not define
    (\<open>JSON.parse\<close>, \<open>crypto.subtle\<close>, \<open>TextEncoder\<close>, \<open>TextDecoder\<close>, \<open>btoa\<close>, \<open>atob\<close>,
    ...) are fields of the records \<open>js_runtime\<close>, \<open>text_decoder\<close> and \<open>platform\<close>, which
    the functions of the model take as arguments. Where the platform function can
    throw, the field returns an option and \<open>None\<close> is the exception.
  \<^item> The clock (\<open>Date.now()\<close>), the random request id and the replies of the upstream
    service are arguments of the functions that read them.
\<close>

section \<open>Strings\<close>

definition newline :: char where
  "newline = CHR 0x0A"

text \<open>\<open>s.split(sep)\<close> for a separator of one character: never the empty array.\<close>

fun split_on :: "char \<Rightarrow> string \<Rightarrow> string list" where
  "split_on sep [] = [[]]"
| "split_on sep (c # cs) =
     (if c = sep then [] # split_on sep cs
      else (case split_on sep cs of [] \<Rightarrow> [[c]] | l # ls \<Rightarrow> (c # l) # ls))"

text \<open>\<open>a.pop()\<close>: the last element (\<open>undefined\<close> on the empty array) and the array left.\<close>

definition pop :: "'a list \<Rightarrow> 'a option \<times> 'a list" where
  "pop xs = (case rev xs of [] \<Rightarrow> (None, []) | x # r \<Rightarrow> (Some x, rev r))"

definition startsWith :: "string \<Rightarrow> string \<Rightarrow> bool" where
  "startsWith s p = (take (length p) s = p)"

text \<open>\<open>a.join(sep)\<close> on an array of strings.\<close>

fun join :: "string \<Rightarrow> string list \<Rightarrow> string" where
  "join sep [] = []"
| "join sep [x] = x"
| "join sep (x # y # ys) = x @ sep @ join sep (y # ys)"

text \<open>
  The white space and line terminators that \<open>trim\<close> removes, among the code units below
  256: TAB, LF, VT, FF, CR, SPACE and NO-BREAK SPACE.
\<close>

definition is_space :: "char \<Rightarrow> bool" where
  "is_space c = (c \<in> {CHR 0x09, CHR 0x0A, CHR 0x0B, CHR 0x0C, CHR 0x0D, CHR 0x20, CHR 0xA0})"

definition trim :: "string \<Rightarrow> string" where
  "trim s = rev (dropWhile is_space (rev (dropWhile is_space s)))"

text \<open>
  \<open>s.toLowerCase()\<close> on code units below 256: the letters A-Z and the Latin-1 capitals
  (0xC0-0xDE without the multiplication sign 0xD7) move up by 0x20.
\<close>

definition lower_char :: "char \<Rightarrow> char" where
  "lower_char c =
     (let n = (of_char c :: nat) in
      if (0x41 \<le> n \<and> n \<le> 0x5A) \<or> (0xC0 \<le> n \<and> n \<le> 0xDE \<and> n \<noteq> 0xD7)
      then char_of (n + 0x20) else c)"

definition toLowerCase :: "string \<Rightarrow> string" where
  "toLowerCase s = map lower_char s"

text \<open>\<open>s.includes(sub)\<close>: \<open>sub\<close> occurs in \<open>s\<close> at some position.\<close>

definition includes_str :: "string \<Rightarrow> string \<Rightarrow> bool" where
  "includes_str s sub = list_ex (\<lambda>i. take (length sub) (drop i s) = sub) [0 ..< Suc (length s)]"

subsection \<open>Numbers as text\<close>

definition digit_char :: "nat \<Rightarrow> char" where
  "digit_char d = char_of (0x30 + d)"

definition is_digit :: "char \<Rightarrow> bool" where
  "is_digit c = (0x30 \<le> (of_char c :: nat) \<and> (of_char c :: nat) \<le> 0x39)"

definition digit_value :: "char \<Rightarrow> nat" where
  "digit_value c = of_char c - 0x30"

text \<open>
  \<open>n.toString()\<close> for a non-negative integer below \<open>2^53\<close> (a millisecond clock and its
  quotients are): the exact decimal digits, no sign, no exponent. From \<open>2^53\<close> on a
  JavaScript number no longer holds every integer and \<open>toString\<close> prints the shortest
  digits that read back as the same number (\<open>2^60\<close> prints as \<open>1152921504606847000\<close>),
  and from \<open>10^21\<close> on an exponent; the model follows neither, so it is the code only
  below \<open>2^53\<close>.
\<close>

fun string_of_nat :: "nat \<Rightarrow> string" where
  "string_of_nat n =
     (if n < 10 then [digit_char n] else string_of_nat (n div 10) @ [digit_char (n mod 10)])"

declare string_of_nat.simps [simp del]

definition is_hex_digit :: "char \<Rightarrow> bool" where
  "is_hex_digit c =
     (let n = (of_char c :: nat) in
      (0x30 \<le> n \<and> n \<le> 0x39) \<or> (0x41 \<le> n \<and> n \<le> 0x46) \<or> (0x61 \<le> n \<and> n \<le> 0x66))"

definition hex_digit_value :: "char \<Rightarrow> nat" where
  "hex_digit_value c =
     (let n = (of_char c :: nat) in
      if n \<le> 0x39 then n - 0x30 else if n \<le> 0x46 then n - 0x37 else n - 0x57)"

text \<open>
  \<open>i.toString()\<close> for an integer, and \<open>parseInt(s)\<close> without a radix: leading white
  space is skipped, a sign is read, after the prefix \<open>0x\<close> or \<open>0X\<close> the digits are
  hexadecimal and decimal otherwise, the longest run of digits is the number, and there
  is no number (\<open>NaN\<close>, here \<open>None\<close>) when the run is empty. The integers are exact,
  as JavaScript's are below \<open>2^53\<close>.
\<close>

definition string_of_int :: "int \<Rightarrow> string" where
  "string_of_int i =
     (if i < 0 then CHR ''-'' # string_of_nat (nat (- i)) else string_of_nat (nat i))"

definition parseInt :: "string \<Rightarrow> int option" where
  "parseInt s =
     (let t = dropWhile is_space s;
          negative = (case t of [] \<Rightarrow> False | c # _ \<Rightarrow> c = CHR ''-'');
          u = (case t of [] \<Rightarrow> [] | c # r \<Rightarrow> if c = CHR ''-'' \<or> c = CHR ''+'' then r else t);
          magnitude =
            (if startsWith u ''0x'' \<or> startsWith u ''0X'' then
               let ds = takeWhile is_hex_digit (drop 2 u)
               in if ds = [] then None
                  else Some (foldl (\<lambda>n c. 16 * n + hex_digit_value c) 0 ds)
             else
               let ds = takeWhile is_digit u
               in if ds = [] then None
                  else Some (foldl (\<lambda>n c. 10 * n + digit_value c) 0 ds))
      in case magnitude of
           None \<Rightarrow> None
         | Some m \<Rightarrow> Some (if negative then - int m else int m))"

text \<open>\<open>Math.ceil(n / 4)\<close> for a length \<open>n\<close>.\<close>

definition ceil_div4 :: "nat \<Rightarrow> nat" where
  "ceil_div4 n = (n + 3) div 4"

subsection \<open>Bytes as hexadecimal text\<close>

type_synonym byte = "8 word"

definition hex_digit :: "nat \<Rightarrow> char" where
  "hex_digit d = (if d < 10 then char_of (0x30 + d) else char_of (0x57 + d))"

text \<open>\<open>b.toString(16)\<close> for \<open>b < 256\<close>, and \<open>s.padStart(2, '0')\<close>.\<close>

definition toString16 :: "nat \<Rightarrow> string" where
  "toString16 b = (if b < 16 then [hex_digit b] else [hex_digit (b div 16), hex_digit (b mod 16)])"

definition padStart2 :: "string \<Rightarrow> string" where
  "padStart2 s = replicate (2 - length s) (CHR ''0'') @ s"

definition hex_of_bytes :: "byte list \<Rightarrow> string" where
  "hex_of_bytes signatureArray = concat (map (\<lambda>b. padStart2 (toString16 (unat b))) signatureArray)"

section \<open>JavaScript values\<close>

text \<open>
  The values that \<open>JSON.parse\<close> returns and that property reads produce. The numbers are
  a type parameter: the model needs to know of a number only whether it is zero.
  \<open>JObj\<close> holds the own properties of an object, each key once.
\<close>

datatype 'n jsval =
    JUndefined
  | JNull
  | JBool bool
  | JNum 'n
  | JStr string
  | JArr "'n jsval list"
  | JObj "(string \<times> 'n jsval) list"

text \<open>
  The part of the JavaScript runtime that the stream translator relies on:
  \<^item> \<open>JSON_parse\<close>: \<open>JSON.parse\<close>, \<open>None\<close> when it throws a \<open>SyntaxError\<close>;
  \<^item> \<open>number_is_zero\<close>: whether a number is \<open>0\<close> or \<open>-0\<close> (JSON has no \<open>NaN\<close>);
  \<^item> \<open>ToString\<close>: the conversion of a value that is not a string to a string, as string
    concatenation and \<open>Array.prototype.join\<close> perform it; \<open>None\<close> when it throws a
    \<open>TypeError\<close> (an object whose own \<open>toString\<close> property is not callable).
\<close>

record 'n js_runtime =
  JSON_parse :: "string \<Rightarrow> 'n jsval option"
  number_is_zero :: "'n \<Rightarrow> bool"
  ToString :: "'n jsval \<Rightarrow> string option"

fun truthy :: "'n js_runtime \<Rightarrow> 'n jsval \<Rightarrow> bool" where
  "truthy rt JUndefined = False"
| "truthy rt JNull = False"
| "truthy rt (JBool b) = b"
| "truthy rt (JNum n) = (\<not> number_is_zero rt n)"
| "truthy rt (JStr s) = (s \<noteq> [])"
| "truthy rt (JArr xs) = True"
| "truthy rt (JObj kvs) = True"

text \<open>
  \<open>v.name\<close> for the property names the source reads (\<open>data\<close>, \<open>delta_content\<close>,
  \<open>choices\<close>, \<open>delta\<close>, \<open>content\<close>): a \<open>TypeError\<close> (\<open>None\<close>) on \<open>null\<close> and
  \<open>undefined\<close>, the own property of an object, and \<open>undefined\<close> on every other value,
  whose prototypes have no property of these names.
\<close>

fun field :: "'n jsval \<Rightarrow> string \<Rightarrow> 'n jsval option" where
  "field JUndefined name = None"
| "field JNull name = None"
| "field (JObj kvs) name = Some (case map_of kvs name of None \<Rightarrow> JUndefined | Some v \<Rightarrow> v)"
| "field v name = Some JUndefined"

text \<open>\<open>v[0]\<close>: the first element of an array, the first code unit of a string, the
  property \<open>"0"\<close> of an object.\<close>

fun index0 :: "'n jsval \<Rightarrow> 'n jsval option" where
  "index0 JUndefined = None"
| "index0 JNull = None"
| "index0 (JArr xs) = Some (case xs of [] \<Rightarrow> JUndefined | x # _ \<Rightarrow> x)"
| "index0 (JStr s) = Some (case s of [] \<Rightarrow> JUndefined | c # _ \<Rightarrow> JStr [c])"
| "index0 (JObj kvs) = Some (case map_of kvs ''0'' of None \<Rightarrow> JUndefined | Some v \<Rightarrow> v)"
| "index0 v = Some JUndefined"

text \<open>\<open>v?.name\<close>: \<open>undefined\<close> when \<open>v\<close> is \<open>null\<close> or \<open>undefined\<close>, else \<open>v.name\<close>.\<close>

definition opt_field :: "'n jsval \<Rightarrow> string \<Rightarrow> 'n jsval option" where
  "opt_field v name = (if v = JUndefined \<or> v = JNull then Some JUndefined else field v name)"

text \<open>The text that \<open>fullAssistantContent += chunk\<close> appends and that \<open>join('')\<close> reads.\<close>

definition chunk_text :: "'n js_runtime \<Rightarrow> 'n jsval \<Rightarrow> string option" where
  "chunk_text rt chunk = (case chunk of JStr s \<Rightarrow> Some s | _ \<Rightarrow> ToString rt chunk)"

section \<open>The stream translator (chatStream, lines 410-451)\<close>

text \<open>
  What the generator has produced so far: the text collected in \<open>fullAssistantContent\<close>
  and the values it has yielded, oldest first.
\<close>

record 'n gen_out =
  fullAssistantContent :: string
  yielded :: "'n jsval list"

text \<open>
  \<open>fullAssistantContent += chunk; yield chunk\<close>. The concatenation comes first: when it
  throws (\<open>None\<close>), nothing has been appended and nothing is yielded.
\<close>

definition emit :: "'n js_runtime \<Rightarrow> 'n jsval \<Rightarrow> 'n gen_out \<Rightarrow> 'n gen_out option" where
  "emit rt chunk out =
     (case chunk_text rt chunk of
        None \<Rightarrow> None
      | Some t \<Rightarrow>
          Some (out\<lparr>fullAssistantContent := fullAssistantContent out @ t,
                    yielded := yielded out @ [chunk]\<rparr>))"

text \<open>
  The body of the \<open>try\<close> block after \<open>JSON.parse\<close> has returned \<open>dataJson\<close> (lines
  435-445). \<open>None\<close> is an exception, which the \<open>catch\<close> of line 446 swallows.
\<close>

definition handle_json :: "'n js_runtime \<Rightarrow> 'n jsval \<Rightarrow> 'n gen_out \<Rightarrow> 'n gen_out option" where
  "handle_json rt dataJson out =
     (case field dataJson ''data'' of
        None \<Rightarrow> None
      | Some d \<Rightarrow>
          (case (if truthy rt d then field d ''delta_content'' else Some d) of
             None \<Rightarrow> None
           | Some c \<Rightarrow>
               if truthy rt c then emit rt c out
               else
                 (case field dataJson ''choices'' of
                    None \<Rightarrow> None
                  | Some choices \<Rightarrow>
                      if truthy rt choices then
                        (case index0 choices of
                           None \<Rightarrow> None
                         | Some c0 \<Rightarrow>
                             (case opt_field c0 ''delta'' of
                                None \<Rightarrow> None
                              | Some delta \<Rightarrow>
                                  (case opt_field delta ''content'' of
                                     None \<Rightarrow> None
                                   | Some cont \<Rightarrow>
                                       let chunk = (if truthy rt cont then cont else JStr [])
                                       in if truthy rt chunk then emit rt chunk out
                                          else Some out)))
                      else Some out)))"

text \<open>One iteration of \<open>for (const line of lines)\<close> (lines 424-450).\<close>

datatype 'n step = Returned | Continue "'n gen_out"

definition process_line :: "'n js_runtime \<Rightarrow> string \<Rightarrow> 'n gen_out \<Rightarrow> 'n step" where
  "process_line rt line out =
     (if startsWith line ''data: '' then
        let dataStr = drop 6 line in
        if dataStr = ''[DONE]'' then Returned
        else
          (case JSON_parse rt dataStr of
             None \<Rightarrow> Continue out
           | Some dataJson \<Rightarrow>
               (case handle_json rt dataJson out of
                  None \<Rightarrow> Continue out
                | Some out' \<Rightarrow> Continue out'))
      else Continue out)"

text \<open>The \<open>for\<close> loop: the output, and whether the generator returned inside it.\<close>

fun process_lines :: "'n js_runtime \<Rightarrow> string list \<Rightarrow> 'n gen_out \<Rightarrow> 'n gen_out \<times> bool" where
  "process_lines rt [] out = (out, False)"
| "process_lines rt (line # lines) out =
     (case process_line rt line out of
        Returned \<Rightarrow> (out, True)
      | Continue out' \<Rightarrow> process_lines rt lines out')"

text \<open>
  The response body as the reader delivers it: the chunks (\<open>Uint8Array\<close>s) of the reads
  that resolve with \<open>done: false\<close>, and then either \<open>done: true\<close> or a rejected read.
\<close>

datatype stream_end = Closed | ReadFails

record body =
  chunks :: "byte list list"
  ending :: stream_end

text \<open>
  \<open>new TextDecoder()\<close> and \<open>decoder.decode(value, {stream: true})\<close>: the decoder keeps, in
  a state of type \<open>'d\<close>, the bytes of a character that a chunk ends in the middle of.
\<close>

record 'd text_decoder =
  decoder_new :: 'd
  decode_stream :: "'d \<Rightarrow> byte list \<Rightarrow> string \<times> 'd"

text \<open>How the \<open>while (true)\<close> loop is left: \<open>return\<close>, \<open>break\<close>, or the exception of
  a rejected read.\<close>

datatype loop_exit = ByReturn | ByBreak | ByThrow

fun read_loop ::
  "'n js_runtime \<Rightarrow> 'd text_decoder \<Rightarrow> stream_end \<Rightarrow> byte list list \<Rightarrow> 'd \<Rightarrow> string \<Rightarrow>
   'n gen_out \<Rightarrow> 'n gen_out \<times> loop_exit" where
  "read_loop rt dec fin [] d buffer out =
     (out, case fin of Closed \<Rightarrow> ByBreak | ReadFails \<Rightarrow> ByThrow)"
| "read_loop rt dec fin (value # rest) d buffer out =
     (case decode_stream dec d value of
        (text, d') \<Rightarrow>
          (case pop (split_on newline (buffer @ text)) of
             (last_line, lines) \<Rightarrow>
               let buffer' = (case last_line of None \<Rightarrow> [] | Some l \<Rightarrow> l)
               in (case process_lines rt lines out of
                     (out', True) \<Rightarrow> (out', ByReturn)
                   | (out', False) \<Rightarrow> read_loop rt dec fin rest d' buffer' out')))"

section \<open>The platform\<close>

text \<open>
  The claims of the token's payload that \<open>initializeZChat\<close> reads, typed as the
  interface \<open>ZChatSession\<close> types the fields they are stored in: each is a string when
  it is present. A payload that carries another kind of value under \<open>id\<close> or \<open>email\<close>
  is outside the model.
\<close>

record jwt_claims =
  claim_id :: "string option"
  claim_email :: "string option"

text \<open>
  The platform functions behind signing and start-up:
  \<^item> \<open>encoder_encode\<close>: \<open>new TextEncoder().encode\<close>;
  \<^item> \<open>subtle_hmac key data\<close>: \<open>crypto.subtle.importKey\<close> of the raw key for HMAC with
    SHA-256, then \<open>crypto.subtle.sign\<close>; \<open>None\<close> when either promise rejects;
  \<^item> \<open>encodeURIComponent\<close>, \<open>unescape\<close>, \<open>btoa\<close> and \<open>atob\<close>, \<open>escape\<close>,
    \<open>decodeURIComponent\<close>, with \<open>None\<close> for an exception;
  \<^item> \<open>url_encode\<close>: how \<open>URLSearchParams.toString\<close> writes one name or one value;
  \<^item> \<open>match_fe_version\<close>: \<open>html.match(/prod-fe-\d+\.\d+\.\d+/)\<close>, the first match;
  \<^item> \<open>JSON_parse_claims\<close>: \<open>JSON.parse\<close> of the token's payload, read through the
    properties \<open>id\<close> and \<open>email\<close>; \<open>None\<close> when \<open>JSON.parse\<close> throws or returns \<open>null\<close>
    (whose properties cannot be read).
\<close>

record platform =
  encoder_encode :: "string \<Rightarrow> byte list"
  subtle_hmac :: "byte list \<Rightarrow> byte list \<Rightarrow> byte list option"
  encodeURIComponent :: "string \<Rightarrow> string option"
  unescape :: "string \<Rightarrow> string"
  btoa :: "string \<Rightarrow> string option"
  atob :: "string \<Rightarrow> string option"
  escape :: "string \<Rightarrow> string"
  decodeURIComponent :: "string \<Rightarrow> string option"
  url_encode :: "string \<Rightarrow> string"
  match_fe_version :: "string \<Rightarrow> string option"
  JSON_parse_claims :: "string \<Rightarrow> jwt_claims option"

section \<open>The signer (lines 138-246)\<close>

definition generateHmacSignature :: "platform \<Rightarrow> string \<Rightarrow> string \<Rightarrow> string option" where
  "generateHmacSignature P key data =
     map_option hex_of_bytes (subtle_hmac P (encoder_encode P key) (encoder_encode P data))"

definition base64Encode :: "platform \<Rightarrow> string \<Rightarrow> string option" where
  "base64Encode P str =
     (case encodeURIComponent P str of None \<Rightarrow> None | Some e \<Rightarrow> btoa P (unescape P e))"

definition base64Decode :: "platform \<Rightarrow> string \<Rightarrow> string option" where
  "base64Decode P str =
     (case atob P str of None \<Rightarrow> None | Some a \<Rightarrow> decodeURIComponent P (escape P a))"

definition generateUrlParams :: "platform \<Rightarrow> (string \<times> string) list \<Rightarrow> string" where
  "generateUrlParams P params =
     join ''&'' (map (\<lambda>(key, v). url_encode P key @ ''='' @ url_encode P v) params)"

text \<open>
  \<open>a.localeCompare(b) \<le> 0\<close>, modelled by the order of the code units. The source
  compares the keys \<open>timestamp\<close>, \<open>requestId\<close> and \<open>user_id\<close> only, which begin with
  three different lower-case letters, where collation and code units agree.
\<close>

fun localeCompare_le :: "string \<Rightarrow> string \<Rightarrow> bool" where
  "localeCompare_le [] b = True"
| "localeCompare_le (x # a) [] = False"
| "localeCompare_le (x # a) (y # b) =
     ((of_char x :: nat) < of_char y \<or> (x = y \<and> localeCompare_le a b))"

text \<open>\<open>entries.sort(([a], [b]) => a.localeCompare(b))\<close>: a stable sort by the key.\<close>

fun insert_entry :: "string \<times> 'a \<Rightarrow> (string \<times> 'a) list \<Rightarrow> (string \<times> 'a) list" where
  "insert_entry e [] = [e]"
| "insert_entry e (x # xs) =
     (if localeCompare_le (fst e) (fst x) then e # x # xs else x # insert_entry e xs)"

definition sort_entries :: "(string \<times> 'a) list \<Rightarrow> (string \<times> 'a) list" where
  "sort_entries entries = foldr insert_entry entries []"

text \<open>
  Lines 212-213: the window of the time stamp, \<open>Math.floor(parseInt(timestamp) / 300000)\<close>,
  printed (\<open>NaN\<close> prints as such), and the key derived for it from the salt.
\<close>

definition bucket_text :: "string \<Rightarrow> string" where
  "bucket_text timestamp =
     (case parseInt timestamp of None \<Rightarrow> ''NaN'' | Some ms \<Rightarrow> string_of_int (ms div 300000))"

definition bucket_key :: "platform \<Rightarrow> string \<Rightarrow> string \<Rightarrow> string option" where
  "bucket_key P salt_key timestamp = generateHmacSignature P salt_key (bucket_text timestamp)"

record signed_request =
  signature :: string
  timestamp :: string
  urlParams :: string

text \<open>
  \<open>generateZaSignature\<close>, with the clock reading \<open>now\<close> (\<open>Date.now()\<close>, milliseconds) and
  the random \<open>request_id\<close> as arguments. \<open>None\<close>: the promise rejects, because a platform
  function threw.
\<close>

definition generateZaSignature ::
  "platform \<Rightarrow> nat \<Rightarrow> string \<Rightarrow> string \<Rightarrow> string \<Rightarrow> string \<Rightarrow> string \<Rightarrow> signed_request option" where
  "generateZaSignature P now request_id prompt token user_id salt_key =
     (let timestamp' = string_of_nat now in
      case bucket_key P salt_key timestamp' of
        None \<Rightarrow> None
      | Some w_key \<Rightarrow>
          let payloadDict =
                [(''timestamp'', timestamp'), (''requestId'', request_id), (''user_id'', user_id)];
              sortedItems = sort_entries payloadDict;
              sortedPayload = join '','' (map (\<lambda>(k, v). k @ '','' @ v) sortedItems)
          in (case base64Encode P (trim prompt) of
                None \<Rightarrow> None
              | Some promptB64 \<Rightarrow>
                  let dataToSign = sortedPayload @ ''|'' @ promptB64 @ ''|'' @ timestamp'
                  in (case generateHmacSignature P w_key dataToSign of
                        None \<Rightarrow> None
                      | Some signature' \<Rightarrow>
                          let browserInfo =
                                [(''version'', ''0.0.1''),
                                 (''platform'', ''web''),
                                 (''token'', token),
                                 (''user_agent'',
                                  ''Mozilla/5.0 (Windows NT 10.0; Win64; x64) Chrome/120.0.0.0''),
                                 (''language'', ''en-US''),
                                 (''screen_resolution'', ''1920x1080''),
                                 (''viewport_size'', ''1920x1080''),
                                 (''timezone'', ''Europe/Paris''),
                                 (''timezone_offset'', ''-60'')];
                              params = payloadDict @ browserInfo;
                              urlParams' =
                                generateUrlParams P params @ ''&signature_timestamp='' @ timestamp'
                          in Some \<lparr>signature = signature', timestamp = timestamp',
                                    urlParams = urlParams'\<rparr>)))"

section \<open>The session (lines 46-59, 181-200, 249-334)\<close>

record Message =
  role :: string
  content :: string

record ZChatSession =
  token :: string
  user_id :: string
  chat_id :: string
  messages :: "Message list"
  model :: string
  use_web_search :: bool
  use_thinking :: bool
  use_image_gen :: bool
  use_preview_mode :: bool
  user_name :: string
  salt_key :: string
  fe_version :: string

text \<open>
  The landing page as \<open>fetch\<close> and \<open>response.text()\<close> deliver it: a rejected promise, or
  the \<open>ok\<close> flag and the text.
\<close>

datatype page_fetch = PageFails | Page bool string

definition scrapeConfig :: "platform \<Rightarrow> page_fetch \<Rightarrow> string \<times> string" where
  "scrapeConfig P page =
     (let salt = ''key-@@@@)))()((9))-xxxx&&&%%%%%'';
          default_version = ''prod-fe-1.0.185''
      in case page of
           PageFails \<Rightarrow> (salt, default_version)
         | Page ok html \<Rightarrow>
             if ok then
               (case match_fe_version P html of
                  None \<Rightarrow> (salt, default_version)
                | Some versionMatch \<Rightarrow> (salt, versionMatch))
             else (salt, default_version))"

text \<open>
  A reply of the upstream's authentication endpoints: \<open>fetch\<close> rejects, or there is a
  response with its \<open>ok\<close> flag and its body. The body is \<open>None\<close> when \<open>response.json()\<close>
  rejects or yields \<open>null\<close>, and otherwise the value of \<open>data.token || ""\<close>, a string.
\<close>

datatype auth_reply = AuthFails | AuthReply bool "string option"

text \<open>
  Lines 276-311. An exception in this part reaches the \<open>catch\<close> of line 329 with the
  token still empty, as it also is when an endpoint answers without a token.
\<close>

definition guest_token :: "auth_reply \<Rightarrow> string" where
  "guest_token guest =
     (case guest of
        AuthFails \<Rightarrow> []
      | AuthReply ok guestData \<Rightarrow>
          if ok then (case guestData of None \<Rightarrow> [] | Some t \<Rightarrow> t) else [])"

definition obtain_token :: "auth_reply \<Rightarrow> auth_reply \<Rightarrow> string" where
  "obtain_token auths guest =
     (case auths of
        AuthFails \<Rightarrow> []
      | AuthReply ok data \<Rightarrow>
          if \<not> ok then guest_token guest
          else (case data of
                  None \<Rightarrow> []
                | Some t \<Rightarrow> if t = [] then guest_token guest else t))"

text \<open>Lines 314-325: the \<open>try\<close> block that reads the identity out of the token.\<close>

definition decode_identity :: "platform \<Rightarrow> ZChatSession \<Rightarrow> ZChatSession" where
  "decode_identity P session =
     (let tokenParts = split_on (CHR ''.'') (token session) in
      if length tokenParts = 3 then
        (case base64Decode P (tokenParts ! 1 @ ''=='') of
           None \<Rightarrow> session
         | Some decoded \<Rightarrow>
             (case JSON_parse_claims P decoded of
                None \<Rightarrow> session
              | Some payload \<Rightarrow>
                  let id_or_empty = (case claim_id payload of None \<Rightarrow> [] | Some i \<Rightarrow> i);
                      email_or_guest =
                        (case claim_email payload of
                           None \<Rightarrow> ''Guest''
                         | Some e \<Rightarrow> if e = [] then ''Guest'' else e)
                  in session\<lparr>user_id := id_or_empty,
                             user_name :=
                               (case split_on (CHR ''@'') email_or_guest of
                                  [] \<Rightarrow> []
                                | first # _ \<Rightarrow> first)\<rparr>))
      else session)"

text \<open>
  \<open>initializeZChat\<close>, with the landing page, the fresh conversation id and the two
  replies of the authentication endpoints as arguments.
\<close>

definition initializeZChat ::
  "platform \<Rightarrow> page_fetch \<Rightarrow> string \<Rightarrow> auth_reply \<Rightarrow> auth_reply \<Rightarrow> ZChatSession" where
  "initializeZChat P page new_chat_id auths guest =
     (case scrapeConfig P page of
        (salt, version) \<Rightarrow>
          let session =
                \<lparr>token = [], user_id = [], chat_id = new_chat_id, messages = [],
                 model = ''glm-4.7'', use_web_search = False, use_thinking = False,
                 use_image_gen = False, use_preview_mode = False, user_name = ''Guest'',
                 salt_key = salt, fe_version = version\<rparr>;
              session = session\<lparr>token := obtain_token auths guest\<rparr>
          in if token session \<noteq> [] then decode_identity P session else session)"

section \<open>chatStream (lines 352-459)\<close>

text \<open>
  The upstream's answer to the signed request: \<open>fetch\<close> rejects, or there is a response
  with its \<open>ok\<close> flag, its status, its text (read for the error message only) and its
  body, which is \<open>None\<close> when \<open>response.body\<close> is \<open>null\<close>. The request itself (URL,
  headers, payload) is built from the session and the signature and is not part of the
  model: nothing the generator does afterwards reads it.
\<close>

record upstream_response =
  resp_ok :: bool
  resp_status :: nat
  resp_text :: string
  resp_body :: "body option"

datatype fetch_outcome = FetchFails | Fetched upstream_response

text \<open>The exceptions that leave the generator.\<close>

datatype chat_error =
    SigningFailed
  | FetchFailed
  | UpstreamError nat string
  | NullBody
  | ReadFailed

text \<open>
  A run of the generator to its end, consumed as the two endpoints consume it (every
  value taken): the values yielded, the exception that ended it if one did, and the
  session as the run leaves it.
\<close>

record 'n chat_run =
  emitted :: "'n jsval list"
  thrown :: "chat_error option"
  session_after :: ZChatSession

definition chatStream ::
  "'n js_runtime \<Rightarrow> platform \<Rightarrow> 'd text_decoder \<Rightarrow> nat \<Rightarrow> string \<Rightarrow>
   ZChatSession \<Rightarrow> string \<Rightarrow> fetch_outcome \<Rightarrow> 'n chat_run" where
  "chatStream rt P dec now request_id session prompt upstream =
     (let session1 =
            session\<lparr>messages := messages session @ [\<lparr>role = ''user'', content = prompt\<rparr>]\<rparr>
      in case generateZaSignature P now request_id prompt (token session1) (user_id session1)
                (salt_key session1) of
           None \<Rightarrow> \<lparr>emitted = [], thrown = Some SigningFailed, session_after = session1\<rparr>
         | Some signed_req \<Rightarrow>
             (case upstream of
                FetchFails \<Rightarrow>
                  \<lparr>emitted = [], thrown = Some FetchFailed, session_after = session1\<rparr>
              | Fetched response \<Rightarrow>
                  if \<not> resp_ok response then
                    \<lparr>emitted = [],
                     thrown = Some (UpstreamError (resp_status response) (resp_text response)),
                     session_after = session1\<rparr>
                  else
                    (case resp_body response of
                       None \<Rightarrow> \<lparr>emitted = [], thrown = Some NullBody, session_after = session1\<rparr>
                     | Some b \<Rightarrow>
                         (case read_loop rt dec (ending b) (chunks b) (decoder_new dec) []
                                 \<lparr>fullAssistantContent = [], yielded = []\<rparr> of
                            (out, how) \<Rightarrow>
                              \<lparr>emitted = yielded out,
                               thrown = (if how = ByThrow then Some ReadFailed else None),
                               session_after =
                                 (if fullAssistantContent out \<noteq> [] then
                                    session1\<lparr>messages := messages session1 @
                                      [\<lparr>role = ''assistant'',
                                        content = fullAssistantContent out\<rparr>]\<rparr>
                                  else session1)\<rparr>))))"

section \<open>The API key check (lines 90-124)\<close>

record request =
  path :: string
  authorization :: "string option"

text \<open>\<open>next()\<close>, or \<open>c.json({error: {message}}, status)\<close>.\<close>

datatype auth_decision = Next | Reject nat string

text \<open>\<open>API_KEY\<close> is \<open>c.env.API_KEY\<close>: \<open>None\<close> when the binding is absent.\<close>

definition validateApiKey :: "string option \<Rightarrow> request \<Rightarrow> auth_decision" where
  "validateApiKey API_KEY req =
     (if path req = ''/'' then Next
      else
        (case authorization req of
           None \<Rightarrow> Reject 401 ''Missing Authorization header''
         | Some authHeader \<Rightarrow>
             if authHeader = [] then Reject 401 ''Missing Authorization header''
             else if \<not> startsWith authHeader ''Bearer '' then
               Reject 401 ''Invalid Authorization header format. Expected: Bearer sk-...''
             else
               let apiKey = trim (drop 7 authHeader) in
               if (case API_KEY of None \<Rightarrow> False | Some k \<Rightarrow> k \<noteq> [] \<and> apiKey \<noteq> k) then
                 Reject 401 ''Invalid API key''
               else if \<not> startsWith apiKey ''sk-'' then
                 Reject 401 ''Invalid API key format. Expected: sk-...''
               else Next))"

section \<open>The OpenAI-compatible endpoint (lines 487-578)\<close>

record ChatCompletionRequest =
  req_model :: "string option"
  req_messages :: "Message list"
  req_stream :: "bool option"

record choice =
  index :: nat
  message :: Message
  finish_reason :: string

record usage =
  prompt_tokens :: nat
  completion_tokens :: nat
  total_tokens :: nat

record ChatCompletionResponse =
  response_id :: string
  object :: string
  created :: nat
  response_model :: string
  choices :: "choice list"
  usage :: usage

text \<open>The frames of the streaming answer, before \<open>JSON.stringify\<close>.\<close>

datatype 'n sse_frame = DeltaFrame "'n jsval" | FinishFrame | DoneFrame

text \<open>
  What the handler answers: the completion (status 200), the frames written to the
  stream and the exception that cut them short if one did, or the JSON error of the
  \<open>catch\<close> with its status.
\<close>

datatype 'n http_result =
    Completion ChatCompletionResponse
  | Streamed "'n sse_frame list" "chat_error option"
  | ApiError nat

text \<open>\<open>chunks.join('')\<close>: \<open>null\<close> and \<open>undefined\<close> read as the empty string.\<close>

fun join_chunks :: "'n js_runtime \<Rightarrow> 'n jsval list \<Rightarrow> string option" where
  "join_chunks rt [] = Some []"
| "join_chunks rt (c # cs) =
     (case (if c = JUndefined \<or> c = JNull then Some [] else chunk_text rt c) of
        None \<Rightarrow> None
      | Some t \<Rightarrow> (case join_chunks rt cs of None \<Rightarrow> None | Some r \<Rightarrow> Some (t @ r)))"

text \<open>
  The handler, after \<open>initializeZChat\<close> has returned \<open>session0\<close>. \<open>now\<close> and \<open>request_id\<close>
  go to the signer; \<open>created_ms\<close> is the later clock reading and \<open>uuid\<close> the second
  random id, for the response.
\<close>

definition chat_completions ::
  "'n js_runtime \<Rightarrow> platform \<Rightarrow> 'd text_decoder \<Rightarrow> nat \<Rightarrow> string \<Rightarrow> nat \<Rightarrow> string \<Rightarrow>
   ChatCompletionRequest \<Rightarrow> ZChatSession \<Rightarrow> fetch_outcome \<Rightarrow> 'n http_result" where
  "chat_completions rt P dec now request_id created_ms uuid requestBody session0 upstream =
     (let model_name = (case req_model requestBody of None \<Rightarrow> ''glm-4.7'' | Some m \<Rightarrow> m);
          msgs = req_messages requestBody;
          stream = (case req_stream requestBody of None \<Rightarrow> False | Some b \<Rightarrow> b)
      in case rev msgs of
           [] \<Rightarrow> ApiError 500
         | lastMessage # _ \<Rightarrow>
             let prompt = content lastMessage;
                 session =
                   session0\<lparr>model := model_name,
                     use_web_search :=
                       list_ex (\<lambda>msg. includes_str (toLowerCase (content msg)) ''search'') msgs,
                     use_thinking :=
                       list_ex (\<lambda>msg. includes_str (toLowerCase (content msg)) ''think'') msgs\<rparr>;
                 run = chatStream rt P dec now request_id session prompt upstream
             in if stream then
                  Streamed
                    (map DeltaFrame (emitted run) @
                     (case thrown run of None \<Rightarrow> [FinishFrame, DoneFrame] | Some e \<Rightarrow> []))
                    (thrown run)
                else
                  (case thrown run of
                     Some e \<Rightarrow> ApiError 500
                   | None \<Rightarrow>
                       (case join_chunks rt (emitted run) of
                          None \<Rightarrow> ApiError 500
                        | Some fullContent \<Rightarrow>
                            let promptTokens =
                                  foldl (\<lambda>sum msg. sum + ceil_div4 (length (content msg))) 0 msgs;
                                completionTokens = ceil_div4 (length fullContent)
                            in Completion
                                 \<lparr>response_id = ''chatcmpl-'' @ filter (\<lambda>c. c \<noteq> CHR ''-'') uuid,
                                  object = ''chat.completion'',
                                  created = created_ms div 1000,
                                  response_model = model session,
                                  choices =
                                    [\<lparr>index = 0,
                                      message = \<lparr>role = ''assistant'', content = fullContent\<rparr>,
                                      finish_reason = ''stop''\<rparr>],
                                  usage =
                                    \<lparr>prompt_tokens = promptTokens,
                                     completion_tokens = completionTokens,
                                     total_tokens = promptTokens + completionTokens\<rparr>\<rparr>)))"

chapter \<open>Notions used to state the properties\<close>

section \<open>Text and lines\<close>

text \<open>
  The lines of a text that a newline ends, and what follows the last newline: what one
  pass of lines 421-422 makes of a buffer that holds the text.
\<close>

definition complete_lines :: "string \<Rightarrow> string list" where
  "complete_lines t = butlast (split_on newline t)"

definition residue :: "string \<Rightarrow> string" where
  "residue t = last (split_on newline t)"

text \<open>The text that the decoder returns over a sequence of reads, from the state \<open>d\<close>.\<close>

fun decoded_text :: "'d text_decoder \<Rightarrow> 'd \<Rightarrow> byte list list \<Rightarrow> string" where
  "decoded_text dec d [] = []"
| "decoded_text dec d (v # rest) =
     (case decode_stream dec d v of (t, d') \<Rightarrow> t @ decoded_text dec d' rest)"

text \<open>
  A streaming decoder gives, for the chunks \<open>a\<close> and \<open>b\<close> one after the other, the text
  and the state that it gives for \<open>a @ b\<close> at once, and nothing for the empty chunk:
  what \<open>{stream: true}\<close> asks of \<open>TextDecoder\<close>.
\<close>

definition streaming :: "'d text_decoder \<Rightarrow> bool" where
  "streaming dec =
     ((\<forall>d. decode_stream dec d [] = ([], d)) \<and>
      (\<forall>d a b. decode_stream dec d (a @ b) =
         (case decode_stream dec d a of
            (x, d1) \<Rightarrow> (case decode_stream dec d1 b of (y, d2) \<Rightarrow> (x @ y, d2)))))"

text \<open>The translation of a whole text: its complete lines, in one pass.\<close>

definition exit_of :: "stream_end \<Rightarrow> loop_exit" where
  "exit_of fin = (case fin of Closed \<Rightarrow> ByBreak | ReadFails \<Rightarrow> ByThrow)"

definition translate ::
  "'n js_runtime \<Rightarrow> stream_end \<Rightarrow> string \<Rightarrow> 'n gen_out \<Rightarrow> 'n gen_out \<times> loop_exit" where
  "translate rt fin t out =
     (case process_lines rt (complete_lines t) out of
        (out', True) \<Rightarrow> (out', ByReturn)
      | (out', False) \<Rightarrow> (out', exit_of fin))"

text \<open>An upstream answer with status 200 that carries the given body.\<close>

definition ok_body :: "byte list list \<Rightarrow> stream_end \<Rightarrow> fetch_outcome" where
  "ok_body cs fin =
     Fetched \<lparr>resp_ok = True, resp_status = 200, resp_text = [],
              resp_body = Some \<lparr>chunks = cs, ending = fin\<rparr>\<rparr>"

text \<open>The collected text is the concatenation of the values yielded.\<close>

definition consistent :: "'n js_runtime \<Rightarrow> 'n gen_out \<Rightarrow> bool" where
  "consistent rt out = (join_chunks rt (yielded out) = Some (fullAssistantContent out))"

section \<open>The signature as the specification words it\<close>

text \<open>
  The canonical string of the specification: the metadata sorted by key in
  lexicographic order and written as \<open>key,value\<close> pairs between commas, then \<open>|\<close>, the
  base64 text of the prompt, \<open>|\<close>, and the time stamp.
\<close>

definition spec_canonical_string :: "string \<Rightarrow> string \<Rightarrow> string \<Rightarrow> string \<Rightarrow> string" where
  "spec_canonical_string ts rid uid b64 =
     join '','' (map (\<lambda>(k, v). k @ '','' @ v)
       (sort_key fst [(''timestamp'', ts), (''requestId'', rid), (''user_id'', uid)]))
     @ ''|'' @ b64 @ ''|'' @ ts"

text \<open>
  Read to the letter, the specification keys the second HMAC with the first HMAC itself,
  that is with its 32 bytes, and encodes only the final one in hexadecimal.
\<close>

definition signature_raw_key ::
  "platform \<Rightarrow> nat \<Rightarrow> string \<Rightarrow> string \<Rightarrow> string \<Rightarrow> string \<Rightarrow> string option" where
  "signature_raw_key P now rid prompt uid secret =
     (case subtle_hmac P (encoder_encode P secret)
             (encoder_encode P (string_of_nat (now div 300000))) of
        None \<Rightarrow> None
      | Some bucketKey \<Rightarrow>
          (case base64Encode P (trim prompt) of
             None \<Rightarrow> None
           | Some b64 \<Rightarrow>
               map_option hex_of_bytes
                 (subtle_hmac P bucketKey
                    (encoder_encode P (spec_canonical_string (string_of_nat now) rid uid b64)))))"

text \<open>
  The same with the bucket key taken as text: the 64 hexadecimal digits of the first
  HMAC, whose encoding keys the second.
\<close>

definition signature_hex_key ::
  "platform \<Rightarrow> nat \<Rightarrow> string \<Rightarrow> string \<Rightarrow> string \<Rightarrow> string \<Rightarrow> string option" where
  "signature_hex_key P now rid prompt uid secret =
     (case subtle_hmac P (encoder_encode P secret)
             (encoder_encode P (string_of_nat (now div 300000))) of
        None \<Rightarrow> None
      | Some bucketKey \<Rightarrow>
          (case base64Encode P (trim prompt) of
             None \<Rightarrow> None
           | Some b64 \<Rightarrow>
               map_option hex_of_bytes
                 (subtle_hmac P (encoder_encode P (hex_of_bytes bucketKey))
                    (encoder_encode P (spec_canonical_string (string_of_nat now) rid uid b64)))))"

chapter \<open>Test doubles\<close>

text \<open>
  Concrete stand-ins for the platform and the upstream, used to run the model on
  examples. Each table holds the values of the real platform function at the arguments
  the examples pass; the HMAC digests are those of HMAC-SHA256.
\<close>

section \<open>Bytes and the decoder on ASCII\<close>

definition ascii_bytes :: "string \<Rightarrow> byte list" where
  "ascii_bytes s = map (\<lambda>c. of_nat (of_char c)) s"

definition ascii_decoder :: "unit text_decoder" where
  "ascii_decoder =
     \<lparr>decoder_new = (), decode_stream = (\<lambda>d value. (map (\<lambda>b. char_of (unat b)) value, d))\<rparr>"

section \<open>The runtime on the example events\<close>

definition event_hi :: string where
  \<open>event_hi = ''{"data":{"delta_content":"Hi"}}''\<close>

definition event_there :: string where
  \<open>event_there = ''{"choices":[{"delta":{"content":" there"}}]}''\<close>

definition event_cut :: string where
  \<open>event_cut = ''{"data":{"delta_con''\<close>

definition test_parse :: "string \<Rightarrow> nat jsval option" where
  "test_parse s =
     (if s = event_hi then
        Some (JObj [(''data'', JObj [(''delta_content'', JStr ''Hi'')])])
      else if s = event_there then
        Some (JObj [(''choices'',
                JArr [JObj [(''delta'', JObj [(''content'', JStr '' there'')])]])])
      else None)"

definition test_runtime :: "nat js_runtime" where
  "test_runtime =
     \<lparr>JSON_parse = test_parse,
      number_is_zero = (\<lambda>n. n = 0),
      ToString =
        (\<lambda>v. case v of
               JNum n \<Rightarrow> Some (string_of_nat n)
             | JBool b \<Rightarrow> Some (if b then ''true'' else ''false'')
             | _ \<Rightarrow> None)\<rparr>"

section \<open>The platform on the example request\<close>

definition test_salt :: string where
  "test_salt = ''key-@@@@)))()((9))-xxxx&&&%%%%%''"

definition test_now :: nat where
  "test_now = 1700000000000"

definition test_request_id :: string where
  "test_request_id = ''00000000-0000-4000-8000-000000000000''"

definition test_canonical :: string where
  "test_canonical =
     ''requestId,00000000-0000-4000-8000-000000000000,timestamp,1700000000000,user_id,42|SGVsbG8=|1700000000000''"

text \<open>HMAC-SHA256 of \<open>5666666\<close> and of \<open>5666667\<close> under the salt.\<close>

definition digest_bucket :: "byte list" where
  "digest_bucket =
     [0xE3, 0x7C, 0x98, 0xFB, 0x93, 0x10, 0x05, 0xCB, 0xFA, 0xC8, 0x8F, 0xC6, 0xD9, 0xF0, 0x9A, 0x45,
      0x9C, 0x06, 0x45, 0xF2, 0x5D, 0x89, 0xA6, 0xC0, 0x59, 0xF5, 0x64, 0x17, 0xAF, 0x6F, 0x26, 0x0B]"

definition digest_next_bucket :: "byte list" where
  "digest_next_bucket =
     [0x02, 0x20, 0x6E, 0x13, 0xEE, 0x80, 0xE8, 0x8C, 0xCB, 0x27, 0x8C, 0x5E, 0x70, 0x4B, 0x34, 0xA0,
      0xAF, 0xAC, 0x5E, 0x9F, 0x8A, 0x0C, 0xFA, 0xFF, 0xE9, 0xB9, 0x1D, 0x3F, 0x57, 0x69, 0xE4, 0xD7]"

text \<open>
  HMAC-SHA256 of the canonical string, keyed first with the hexadecimal text of
  \<open>digest_bucket\<close> and then with its bytes.
\<close>

definition digest_hex_keyed :: "byte list" where
  "digest_hex_keyed =
     [0xE9, 0x02, 0x7F, 0x0B, 0xB3, 0x44, 0x06, 0xB2, 0xBF, 0xF3, 0x7B, 0x26, 0xC8, 0xA4, 0x4B, 0x38,
      0xAC, 0xEE, 0x0E, 0x59, 0x19, 0xF7, 0x7B, 0x90, 0x24, 0x3C, 0x21, 0x74, 0x29, 0xA9, 0xF6, 0xA2]"

definition digest_raw_keyed :: "byte list" where
  "digest_raw_keyed =
     [0xAF, 0x02, 0xB2, 0x38, 0x88, 0x2D, 0xE8, 0xF3, 0x9F, 0x41, 0xB4, 0x1B, 0x51, 0x42, 0x07, 0xE6,
      0x4B, 0x41, 0xE9, 0xF4, 0x49, 0xFF, 0x66, 0x29, 0x23, 0x31, 0x42, 0xD3, 0x76, 0x40, 0x4F, 0x3F]"

definition test_hmac :: "byte list \<Rightarrow> byte list \<Rightarrow> byte list option" where
  "test_hmac key data =
     (if key = ascii_bytes test_salt \<and> data = ascii_bytes ''5666666'' then Some digest_bucket
      else if key = ascii_bytes test_salt \<and> data = ascii_bytes ''5666667'' then
        Some digest_next_bucket
      else if key = ascii_bytes ''e37c98fb931005cbfac88fc6d9f09a459c0645f25d89a6c059f56417af6f260b''
              \<and> data = ascii_bytes test_canonical then
        Some digest_hex_keyed
      else if key = digest_bucket \<and> data = ascii_bytes test_canonical then Some digest_raw_keyed
      else None)"

text \<open>
  \<open>URLSearchParams\<close> on ASCII: letters, digits and \<open>*-._\<close> stay, a space becomes \<open>+\<close>,
  every other character its \<open>%XX\<close>.
\<close>

definition form_encode_char :: "char \<Rightarrow> string" where
  "form_encode_char c =
     (let n = (of_char c :: nat) in
      if (0x30 \<le> n \<and> n \<le> 0x39) \<or> (0x41 \<le> n \<and> n \<le> 0x5A) \<or> (0x61 \<le> n \<and> n \<le> 0x7A)
         \<or> c \<in> {CHR ''*'', CHR ''-'', CHR ''.'', CHR ''_''} then [c]
      else if c = CHR '' '' then ''+''
      else CHR ''%'' # map (\<lambda>d. if d < 10 then char_of (0x30 + d) else char_of (0x37 + d))
                         [n div 16, n mod 16])"

text \<open>A token of three segments whose payload is 50 characters long, and its payload.\<close>

definition test_token :: string where
  "test_token =
     ''eyJhbGciOiJIUzI1NiIsInR5cCI6IkpXVCJ9.eyJpZCI6IjQyIiwiZW1haWwiOiJhbm5AZXhhbXBsZS5jb20ifQ.c2ln''"

definition test_payload :: string where
  \<open>test_payload = ''{"id":"42","email":"ann@example.com"}''\<close>

text \<open>
  A token of three segments whose payload is 48 characters long: with \<open>==\<close> appended
  the length is not a multiple of four, the padding is not removed, and \<open>atob\<close> throws.
\<close>

definition test_token_48 :: string where
  "test_token_48 =
     ''eyJhbGciOiJIUzI1NiIsInR5cCI6IkpXVCJ9.eyJpZCI6IjQyIiwiZW1haWwiOiJhbEBleGFtcGxlLmNvbSJ9.c2ln''"

definition test_platform :: platform where
  "test_platform =
     \<lparr>encoder_encode = ascii_bytes,
      subtle_hmac = test_hmac,
      encodeURIComponent = (\<lambda>s. if s = ''Hello'' then Some ''Hello'' else None),
      unescape = (\<lambda>s. s),
      btoa = (\<lambda>s. if s = ''Hello'' then Some ''SGVsbG8='' else None),
      atob =
        (\<lambda>s. if s = ''eyJpZCI6IjQyIiwiZW1haWwiOiJhbm5AZXhhbXBsZS5jb20ifQ=='' then Some test_payload
             else None),
      escape =
        (\<lambda>s. if s = test_payload then
               ''%7B%22id%22%3A%2242%22%2C%22email%22%3A%22ann@example.com%22%7D''
             else s),
      decodeURIComponent =
        (\<lambda>s. if s = ''%7B%22id%22%3A%2242%22%2C%22email%22%3A%22ann@example.com%22%7D'' then
               Some test_payload
             else None),
      url_encode = (\<lambda>s. concat (map form_encode_char s)),
      match_fe_version = (\<lambda>html. None),
      JSON_parse_claims =
        (\<lambda>s. if s = test_payload then
               Some \<lparr>claim_id = Some ''42'', claim_email = Some ''ann@example.com''\<rparr>
             else None)\<rparr>"

text \<open>The session that start-up returns for \<open>test_token\<close>.\<close>

definition test_session :: ZChatSession where
  "test_session =
     \<lparr>token = test_token, user_id = ''42'', chat_id = ''c0'', messages = [],
      model = ''glm-4.7'', use_web_search = False, use_thinking = False,
      use_image_gen = False, use_preview_mode = False, user_name = ''ann'',
      salt_key = test_salt, fe_version = ''prod-fe-1.0.185''\<rparr>"

section \<open>An upstream body in three chunks\<close>

text \<open>
  The two events \<open>event_hi\<close> and \<open>event_there\<close>, each on its own line, cut inside the
  first JSON object and again inside the second line.
\<close>

definition chunk_a :: string where
  \<open>chunk_a = ''data: {"data":{"del''\<close>

definition chunk_b :: string where
  \<open>chunk_b = ''ta_content":"Hi"}}'' @ newline # ''data: {"cho''\<close>

definition chunk_c :: string where
  \<open>chunk_c = ''ices":[{"delta":{"content":" there"}}]}'' @ [newline]\<close>

definition out0 :: "nat gen_out" where
  "out0 = \<lparr>fullAssistantContent = [], yielded = []\<rparr>"

section \<open>Lines of the example stream\<close>

definition line_hi :: string where
  "line_hi = ''data: '' @ event_hi"

definition line_there :: string where
  "line_there = ''data: '' @ event_there"

definition line_cut :: string where
  "line_cut = ''data: '' @ event_cut"

definition line_done :: string where
  "line_done = ''data: [DONE]''"

section \<open>Requests\<close>

definition chat_request :: "string option \<Rightarrow> request" where
  "chat_request h = \<lparr>path = ''/chat'', authorization = h\<rparr>"

definition hello_request :: ChatCompletionRequest where
  "hello_request =
     \<lparr>req_model = None, req_messages = [\<lparr>role = ''user'', content = ''Hello''\<rparr>],
      req_stream = None\<rparr>"

definition hi_there_upstream :: fetch_outcome where
  "hi_there_upstream = ok_body [ascii_bytes (line_hi @ newline # line_there @ [newline])] Closed"

chapter \<open>Lemmas\<close>

section \<open>Splitting text into lines\<close>

lemma split_on_nonempty: "split_on sep s \<noteq> []"
  by (induction s) (auto split: list.splits)

lemma split_on_append:
  "split_on sep (a @ b) = butlast (split_on sep a) @ split_on sep (last (split_on sep a) @ b)"
proof (induction a)
  case Nil
  then show ?case by simp
next
  case (Cons c a)
  obtain x xs where L: "split_on sep a = x # xs"
    using split_on_nonempty[of sep a] by (cases "split_on sep a") auto
  show ?case
  proof (cases "c = sep")
    case True
    then show ?thesis using Cons L by simp
  next
    case False
    show ?thesis
    proof (cases xs)
      case Nil
      with False Cons L show ?thesis
        using split_on_nonempty[of sep "x @ b"] by (auto split: list.splits)
    next
      case (Cons y ys)
      with False Cons.IH L show ?thesis
        by (auto split: list.splits)
    qed
  qed
qed

lemma split_on_no_sep: "sep \<notin> set s \<Longrightarrow> split_on sep s = [s]"
  by (induction s) auto

lemma split_on_line:
  "sep \<notin> set l \<Longrightarrow> split_on sep (l @ sep # rest) = l # split_on sep rest"
  by (induction l) auto

lemma hd_split_on: "hd (split_on sep s) = takeWhile (\<lambda>c. c \<noteq> sep) s"
  using split_on_nonempty[of sep]
  by (induction s) (auto split: list.splits)

lemma pop_nonempty: "xs \<noteq> [] \<Longrightarrow> pop xs = (Some (last xs), butlast xs)"
  by (cases xs rule: rev_cases) (auto simp: pop_def)

lemma pop_split_on:
  "pop (split_on sep s) = (Some (last (split_on sep s)), butlast (split_on sep s))"
  by (rule pop_nonempty) (rule split_on_nonempty)

lemma complete_lines_append:
  "complete_lines (a @ b) = complete_lines a @ complete_lines (residue a @ b)"
  unfolding complete_lines_def residue_def
  by (subst split_on_append) (simp add: butlast_append split_on_nonempty)

lemma residue_append: "residue (a @ b) = residue (residue a @ b)"
  unfolding residue_def
  by (subst split_on_append) (simp add: split_on_nonempty)

lemma residue_no_newline: "newline \<notin> set (residue t)"
  unfolding residue_def using split_on_nonempty[of newline]
  by (induction t) (auto split: list.splits)

lemma complete_lines_no_newline: "newline \<notin> set t \<Longrightarrow> complete_lines t = []"
  by (simp add: complete_lines_def split_on_no_sep)

lemma residue_terminated:
  assumes "pre = [] \<or> last pre = newline"
  shows "residue pre = []"
proof (cases pre rule: rev_cases)
  case Nil
  then show ?thesis by (simp add: residue_def)
next
  case (snoc p c)
  with assms have c: "c = newline" by simp
  have "residue (p @ [newline]) = residue (residue p @ [newline])"
    by (rule residue_append)
  also have "\<dots> = []"
    using split_on_line[OF residue_no_newline, of p "[]"] by (simp add: residue_def)
  finally show ?thesis using snoc c by simp
qed

lemma complete_lines_line:
  "newline \<notin> set l \<Longrightarrow> complete_lines (l @ newline # rest) = l # complete_lines rest"
  by (simp add: complete_lines_def split_on_line split_on_nonempty)

lemma complete_lines_after:
  assumes "pre = [] \<or> last pre = newline"
  shows "complete_lines (pre @ t) = complete_lines pre @ complete_lines t"
  using complete_lines_append[of pre t] residue_terminated[OF assms] by simp

section \<open>The loops of the translator\<close>

lemma process_lines_append:
  "process_lines rt (xs @ ys) out =
     (case process_lines rt xs out of
        (out', True) \<Rightarrow> (out', True)
      | (out', False) \<Rightarrow> process_lines rt ys out')"
  by (induction xs arbitrary: out) (auto split: step.splits)

lemma process_lines_done:
  "process_lines rt (ls @ ''data: [DONE]'' # rest) out = (fst (process_lines rt ls out), True)"
  by (induction ls arbitrary: out) (auto simp: process_line_def startsWith_def split: step.splits)

lemma process_line_malformed:
  assumes "JSON_parse rt payload = None" and "payload \<noteq> ''[DONE]''"
  shows "process_line rt (''data: '' @ payload) out = Continue out"
  using assms by (simp add: process_line_def startsWith_def)

lemma process_lines_skip:
  assumes "process_line rt l = Continue"
  shows "process_lines rt (before @ l # after) out = process_lines rt (before @ after) out"
  using assms by (simp add: process_lines_append split: prod.splits bool.splits)

text \<open>
  The read loop, whatever the chunks, does to the output what one pass over the
  complete lines of the whole decoded text does.
\<close>

lemma read_loop_translate:
  "newline \<notin> set buffer \<Longrightarrow>
   read_loop rt dec fin cs d buffer out = translate rt fin (buffer @ decoded_text dec d cs) out"
proof (induction cs arbitrary: d buffer out)
  case Nil
  then show ?case
    by (simp add: translate_def exit_of_def complete_lines_no_newline)
next
  case (Cons v cs)
  obtain t d' where dv: "decode_stream dec d v = (t, d')" by (cases "decode_stream dec d v")
  have nl: "newline \<notin> set (residue (buffer @ t))" by (rule residue_no_newline)
  have cl: "complete_lines (buffer @ t @ decoded_text dec d' cs) =
            complete_lines (buffer @ t) @ complete_lines (residue (buffer @ t) @ decoded_text dec d' cs)"
    using complete_lines_append[of "buffer @ t" "decoded_text dec d' cs"] by simp
  show ?case
    using Cons.IH[OF nl, of d'] 
    by (simp add: dv pop_split_on cl process_lines_append translate_def
        complete_lines_def[symmetric] residue_def[symmetric] split: prod.splits bool.splits)
qed

lemma read_loop_start:
  "read_loop rt dec fin cs d [] out = translate rt fin (decoded_text dec d cs) out"
  using read_loop_translate[of "[]" rt dec fin cs d out] by simp

lemma decoded_text_concat:
  assumes "streaming dec"
  shows "decoded_text dec d cs = fst (decode_stream dec d (concat cs))"
proof (induction cs arbitrary: d)
  case Nil
  from assms show ?case by (simp add: streaming_def)
next
  case (Cons c cs)
  from assms have
    "decode_stream dec d (c @ concat cs) =
       (case decode_stream dec d c of
          (x, d1) \<Rightarrow> (case decode_stream dec d1 (concat cs) of (y, d2) \<Rightarrow> (x @ y, d2)))"
    unfolding streaming_def by blast
  with Cons show ?case by (simp split: prod.splits)
qed

lemma chatStream_body_cong:
  assumes "read_loop rt dec fin cs (decoder_new dec) [] \<lparr>fullAssistantContent = [], yielded = []\<rparr> =
           read_loop rt dec fin cs' (decoder_new dec) [] \<lparr>fullAssistantContent = [], yielded = []\<rparr>"
  shows "chatStream rt P dec now rid s prompt (ok_body cs fin) =
         chatStream rt P dec now rid s prompt (ok_body cs' fin)"
  using assms by (simp add: chatStream_def ok_body_def Let_def del: read_loop.simps split: option.splits)

section \<open>The collected text and the values yielded\<close>

lemma join_chunks_snoc:
  "join_chunks rt (cs @ [c]) =
     (case join_chunks rt cs of
        None \<Rightarrow> None
      | Some r \<Rightarrow>
          (case (if c = JUndefined \<or> c = JNull then Some [] else chunk_text rt c) of
             None \<Rightarrow> None
           | Some t \<Rightarrow> Some (r @ t)))"
  by (induction cs) (auto split: option.splits)

lemma emit_consistent:
  assumes "consistent rt out" and "truthy rt c" and "emit rt c out = Some out'"
  shows "consistent rt out'"
proof -
  from assms(2) have "c \<noteq> JUndefined" "c \<noteq> JNull" by auto
  with assms(1,3) show ?thesis
    by (auto simp: consistent_def emit_def join_chunks_snoc split: option.splits)
qed

lemma handle_json_consistent:
  assumes "consistent rt out" and "handle_json rt j out = Some out'"
  shows "consistent rt out'"
  using assms emit_consistent[of rt out]
  by (auto simp: handle_json_def Let_def split: option.splits if_splits)

lemma process_line_consistent:
  assumes "consistent rt out" and "process_line rt l out = Continue out'"
  shows "consistent rt out'"
  using assms handle_json_consistent[of rt out]
  by (auto simp: process_line_def Let_def split: option.splits if_splits)

lemma process_lines_consistent:
  "consistent rt out \<Longrightarrow> consistent rt (fst (process_lines rt ls out))"
proof (induction ls arbitrary: out)
  case Nil
  then show ?case by simp
next
  case (Cons l ls)
  then show ?case
    using process_line_consistent[of rt out l]
    by (cases "process_line rt l out") auto
qed

lemma read_loop_consistent:
  "consistent rt out \<Longrightarrow> consistent rt (fst (read_loop rt dec fin cs d [] out))"
proof -
  assume c: "consistent rt out"
  obtain out' r where p: "process_lines rt (complete_lines (decoded_text dec d cs)) out = (out', r)"
    by (cases "process_lines rt (complete_lines (decoded_text dec d cs)) out")
  with process_lines_consistent[OF c, of "complete_lines (decoded_text dec d cs)"]
  have "consistent rt out'" by simp
  with p show ?thesis
    by (cases r) (simp_all add: read_loop_start translate_def)
qed

section \<open>Decimal and hexadecimal text\<close>

lemma of_char_digit_char: "d < 10 \<Longrightarrow> (of_char (digit_char d) :: nat) = 0x30 + d"
  by (simp add: digit_char_def)

lemma is_digit_digit_char: "d < 10 \<Longrightarrow> is_digit (digit_char d)"
  by (simp add: is_digit_def of_char_digit_char)

lemma digit_value_digit_char: "d < 10 \<Longrightarrow> digit_value (digit_char d) = d"
  by (simp add: digit_value_def of_char_digit_char)

lemma not_space_digit: "is_digit c \<Longrightarrow> \<not> is_space c"
  by (auto simp: is_digit_def is_space_def)

lemma string_of_nat_digits: "\<forall>c \<in> set (string_of_nat n). is_digit c"
proof (induction n rule: string_of_nat.induct)
  case (1 n)
  then show ?case
    by (subst string_of_nat.simps) (auto simp: is_digit_digit_char)
qed

lemma string_of_nat_nonempty: "string_of_nat n \<noteq> []"
  by (subst string_of_nat.simps) simp

lemma foldl_string_of_nat:
  "foldl (\<lambda>n c. 10 * n + digit_value c) 0 (string_of_nat n) = n"
proof (induction n rule: string_of_nat.induct)
  case (1 n)
  show ?case
  proof (cases "n < 10")
    case True
    then show ?thesis
      by (subst string_of_nat.simps) (simp add: digit_value_digit_char)
  next
    case False
    with 1 show ?thesis
      by (subst string_of_nat.simps) (simp add: digit_value_digit_char)
  qed
qed

lemma parseInt_string_of_nat: "parseInt (string_of_nat n) = Some (int n)"
proof -
  have d: "\<forall>c \<in> set (string_of_nat n). is_digit c" by (rule string_of_nat_digits)
  obtain c r where cr: "string_of_nat n = c # r"
    using string_of_nat_nonempty[of n] by (cases "string_of_nat n") auto
  with d have c: "is_digit c" and r: "\<forall>x \<in> set r. is_digit x" by auto
  from c have c1: "\<not> is_space c" by (rule not_space_digit)
  from c have c2: "c \<noteq> CHR ''-''" "c \<noteq> CHR ''+''" by (auto simp: is_digit_def)
  have x: "\<not> is_digit (CHR ''x'')" "\<not> is_digit (CHR ''X'')" by (simp_all add: is_digit_def)
  have p: "\<not> startsWith (c # r) ''0x''" "\<not> startsWith (c # r) ''0X''"
    using r x by (cases r; auto simp: startsWith_def)+
  from d have tw: "takeWhile is_digit (c # r) = c # r"
    unfolding cr by (simp add: takeWhile_eq_all_conv)
  have f: "foldl (\<lambda>n c. 10 * n + digit_value c) 0 (c # r) = n"
    using foldl_string_of_nat[of n] by (simp only: cr)
  show ?thesis
    unfolding parseInt_def cr Let_def
    by (simp only: dropWhile.simps c1 if_False list.case c2 p tw f simp_thms option.case)
       simp
qed

lemma string_of_nat_inj: "string_of_nat m = string_of_nat n \<longleftrightarrow> m = n"
  by (metis parseInt_string_of_nat option.inject of_nat_eq_iff)

lemma bucket_text_string_of_nat:
  "bucket_text (string_of_nat t) = string_of_nat (t div 300000)"
proof -
  have "int t div 300000 = int (t div 300000)" by (simp add: zdiv_int)
  then show ?thesis
    by (simp add: bucket_text_def parseInt_string_of_nat string_of_int_def)
qed

lemma of_char_hex_digit:
  "d < 16 \<Longrightarrow> (of_char (hex_digit d) :: nat) = (if d < 10 then 0x30 + d else 0x57 + d)"
  by (simp add: hex_digit_def)

lemma hex_digit_inj:
  assumes "a < 16" and "b < 16" and "hex_digit a = hex_digit b"
  shows "a = b"
proof -
  from assms(3) have "(of_char (hex_digit a) :: nat) = of_char (hex_digit b)" by simp
  with assms(1,2) show ?thesis
    by (simp add: of_char_hex_digit split: if_splits)
qed

lemma hex_digit_0: "hex_digit 0 = CHR ''0''"
  by (simp add: hex_digit_def char_of_def bit_iff_odd)

lemma hex_byte: "padStart2 (toString16 (unat (b :: byte))) =
    [hex_digit (unat b div 16), hex_digit (unat b mod 16)]"
  by (simp add: padStart2_def toString16_def hex_digit_0)

lemma unat_byte_less: "unat (b :: byte) < 256"
  using unsigned_less[of b, where ?'a = nat] by simp

lemma hex_byte_inj:
  assumes "padStart2 (toString16 (unat (a :: byte))) = padStart2 (toString16 (unat b))"
  shows "a = b"
proof -
  have la: "unat a div 16 < 16" "unat a mod 16 < 16" using unat_byte_less[of a] by auto
  have lb: "unat b div 16 < 16" "unat b mod 16 < 16" using unat_byte_less[of b] by auto
  from assms have "hex_digit (unat a div 16) = hex_digit (unat b div 16)"
    and "hex_digit (unat a mod 16) = hex_digit (unat b mod 16)"
    by (simp_all add: hex_byte)
  then have "unat a div 16 = unat b div 16" and "unat a mod 16 = unat b mod 16"
    using la lb hex_digit_inj by blast+
  then have "unat a = unat b"
    by (metis div_mult_mod_eq)
  then show ?thesis by (simp add: word_unat_eq_iff)
qed

lemma hex_of_bytes_inj: "hex_of_bytes xs = hex_of_bytes ys \<longleftrightarrow> xs = ys"
proof
  show "hex_of_bytes xs = hex_of_bytes ys \<Longrightarrow> xs = ys"
  proof (induction xs arbitrary: ys)
    case Nil
    then show ?case by (cases ys) (simp_all add: hex_of_bytes_def hex_byte)
  next
    case (Cons x xs)
    then obtain y ys' where ys: "ys = y # ys'"
      by (cases ys) (simp_all add: hex_of_bytes_def hex_byte)
    with Cons.prems have h: "padStart2 (toString16 (unat x)) = padStart2 (toString16 (unat y))"
      and t: "hex_of_bytes xs = hex_of_bytes ys'"
      by (simp_all add: hex_of_bytes_def hex_byte)
    from hex_byte_inj[OF h] Cons.IH[OF t] ys show ?case by simp
  qed
qed simp

lemma length_hex_of_bytes: "length (hex_of_bytes xs) = 2 * length xs"
  by (induction xs) (simp_all add: hex_of_bytes_def hex_byte)

lemma ascii_text_bytes: "map (\<lambda>b. char_of (unat b)) (ascii_bytes s) = s"
  by (induction s) (simp_all add: ascii_bytes_def unat_of_nat)

lemma ascii_bytes_inj: "ascii_bytes a = ascii_bytes b \<longleftrightarrow> a = b"
  by (metis ascii_text_bytes)

chapter \<open>The test doubles at work\<close>

section \<open>The decoder and the runtime\<close>

lemma streaming_ascii: "streaming ascii_decoder"
  by (simp add: streaming_def ascii_decoder_def)

lemma decoded_ascii:
  "decoded_text ascii_decoder d (map ascii_bytes ss) = concat ss"
  by (induction ss) (simp_all add: ascii_decoder_def ascii_text_bytes)

lemma chunks_text:
  "chunk_a @ chunk_b @ chunk_c =
     (''data: '' @ event_hi) @ newline # (''data: '' @ event_there) @ newline # []"
  by (simp add: chunk_a_def chunk_b_def chunk_c_def event_hi_def event_there_def)

lemma no_newline_hi: "newline \<notin> set (''data: '' @ event_hi)"
  by (simp add: event_hi_def newline_def)

lemma no_newline_there: "newline \<notin> set (''data: '' @ event_there)"
  by (simp add: event_there_def newline_def)

lemma process_hi:
  "process_line test_runtime (''data: '' @ event_hi) out =
     Continue (out\<lparr>fullAssistantContent := fullAssistantContent out @ ''Hi'',
                   yielded := yielded out @ [JStr ''Hi'']\<rparr>)"
proof -
  have p: "JSON_parse test_runtime event_hi =
           Some (JObj [(''data'', JObj [(''delta_content'', JStr ''Hi'')])])"
    by (simp add: test_runtime_def test_parse_def)
  have d: "event_hi \<noteq> ''[DONE]''" by (simp add: event_hi_def)
  show ?thesis
    by (simp add: process_line_def startsWith_def p d handle_json_def emit_def chunk_text_def)
qed

lemma process_there:
  "process_line test_runtime (''data: '' @ event_there) out =
     Continue (out\<lparr>fullAssistantContent := fullAssistantContent out @ '' there'',
                   yielded := yielded out @ [JStr '' there'']\<rparr>)"
proof -
  have p: "JSON_parse test_runtime event_there =
           Some (JObj [(''choices'',
                JArr [JObj [(''delta'', JObj [(''content'', JStr '' there'')])]])])"
    by (simp add: test_runtime_def test_parse_def event_hi_def event_there_def)
  have d: "event_there \<noteq> ''[DONE]''" by (simp add: event_there_def)
  show ?thesis
    by (simp add: process_line_def startsWith_def p d handle_json_def emit_def chunk_text_def
        opt_field_def Let_def)
qed

lemma translate_hi_there:
  "translate test_runtime fin
     ((''data: '' @ event_hi) @ newline # (''data: '' @ event_there) @ newline # []) out0 =
   (\<lparr>fullAssistantContent = ''Hi there'', yielded = [JStr ''Hi'', JStr '' there'']\<rparr>, exit_of fin)"
  by (simp only: translate_def complete_lines_line[OF no_newline_hi]
        complete_lines_line[OF no_newline_there])
     (simp add: complete_lines_def process_hi process_there out0_def del: append.simps)

section \<open>Signing and reading on the examples\<close>

lemma digit_char_values:
  "digit_char 0 = CHR ''0''" "digit_char 1 = CHR ''1''" "digit_char 2 = CHR ''2''"
  "digit_char 3 = CHR ''3''" "digit_char 4 = CHR ''4''" "digit_char 5 = CHR ''5''"
  "digit_char 6 = CHR ''6''" "digit_char 7 = CHR ''7''" "digit_char 8 = CHR ''8''"
  "digit_char 9 = CHR ''9''" "digit_char (Suc 0) = CHR ''1''"
  by (simp_all add: digit_char_def char_of_def bit_iff_odd)

lemma test_timestamp: "string_of_nat test_now = ''1700000000000''"
  by (simp add: test_now_def string_of_nat.simps digit_char_values)

lemma test_bucket_text: "string_of_nat (test_now div 300000) = ''5666666''"
  by (simp add: test_now_def string_of_nat.simps digit_char_values)

lemma sort_entries_metadata:
  "sort_entries [(''timestamp'', ts), (''requestId'', rid), (''user_id'', uid)] =
     [(''requestId'', rid), (''timestamp'', ts), (''user_id'', uid)]"
  by (simp add: sort_entries_def)

lemma hex_digest_bucket:
  "hex_of_bytes digest_bucket =
     ''e37c98fb931005cbfac88fc6d9f09a459c0645f25d89a6c059f56417af6f260b''"
  by (simp add: hex_of_bytes_def digest_bucket_def padStart2_def toString16_def hex_digit_def
      char_of_def bit_iff_odd)

lemma hex_digest_hex_keyed:
  "hex_of_bytes digest_hex_keyed =
     ''e9027f0bb34406b2bff37b26c8a44b38acee0e5919f77b90243c217429a9f6a2''"
  by (simp add: hex_of_bytes_def digest_hex_keyed_def padStart2_def toString16_def hex_digit_def
      char_of_def bit_iff_odd)

lemma trim_hello: "trim ''Hello'' = ''Hello''"
  by (simp add: trim_def is_space_def)

lemma test_bucket_key:
  "bucket_key test_platform test_salt ''1700000000000'' =
     Some ''e37c98fb931005cbfac88fc6d9f09a459c0645f25d89a6c059f56417af6f260b''"
  using bucket_text_string_of_nat[of test_now]
  by (simp add: bucket_key_def test_timestamp test_bucket_text
      generateHmacSignature_def test_platform_def test_hmac_def hex_digest_bucket)

lemma test_base64: "base64Encode test_platform ''Hello'' = Some ''SGVsbG8=''"
  by (simp add: base64Encode_def test_platform_def)

lemma test_second_hmac:
  "generateHmacSignature test_platform
     ''e37c98fb931005cbfac88fc6d9f09a459c0645f25d89a6c059f56417af6f260b'' test_canonical =
   Some ''e9027f0bb34406b2bff37b26c8a44b38acee0e5919f77b90243c217429a9f6a2''"
  by (simp add: generateHmacSignature_def test_platform_def test_hmac_def hex_digest_hex_keyed
      ascii_bytes_inj test_salt_def)

lemma test_data_to_sign:
  "join '','' (map (\<lambda>(k, v). k @ '','' @ v)
      [(''requestId'', test_request_id), (''timestamp'', ''1700000000000''), (''user_id'', ''42'')])
     @ ''|'' @ ''SGVsbG8='' @ ''|'' @ ''1700000000000'' = test_canonical"
  by (simp add: test_request_id_def test_canonical_def)

lemma test_signing:
  "map_option signature
     (generateZaSignature test_platform test_now test_request_id ''Hello'' tok ''42'' test_salt) =
   Some ''e9027f0bb34406b2bff37b26c8a44b38acee0e5919f77b90243c217429a9f6a2''"
  unfolding generateZaSignature_def Let_def
  by (simp only: test_bucket_key sort_entries_metadata trim_hello test_base64 option.case
      test_timestamp test_data_to_sign test_second_hmac)
     simp

lemma chatStream_signed:
  assumes "generateZaSignature P now rid prompt (token s) (user_id s) (salt_key s) \<noteq> None"
  shows "chatStream rt P dec now rid s prompt (ok_body cs fin) =
     (case read_loop rt dec fin cs (decoder_new dec) [] \<lparr>fullAssistantContent = [], yielded = []\<rparr> of
        (out, how) \<Rightarrow>
          \<lparr>emitted = yielded out,
           thrown = (if how = ByThrow then Some ReadFailed else None),
           session_after =
             (if fullAssistantContent out \<noteq> [] then
                s\<lparr>messages := messages s @
                  [\<lparr>role = ''user'', content = prompt\<rparr>,
                   \<lparr>role = ''assistant'', content = fullAssistantContent out\<rparr>]\<rparr>
              else s\<lparr>messages := messages s @ [\<lparr>role = ''user'', content = prompt\<rparr>]\<rparr>)\<rparr>)"
  using assms
  by (auto simp: chatStream_def ok_body_def Let_def simp del: read_loop.simps
      split: option.splits prod.splits)

lemma test_session_signs:
  "generateZaSignature test_platform test_now test_request_id ''Hello''
     (token test_session) (user_id test_session) (salt_key test_session) \<noteq> None"
  using test_signing[of test_token] by (auto simp: test_session_def)

lemma line_hi_no_newline: "newline \<notin> set line_hi"
  using no_newline_hi by (simp add: line_hi_def)

lemma line_there_no_newline: "newline \<notin> set line_there"
  using no_newline_there by (simp add: line_there_def)

lemma line_cut_no_newline: "newline \<notin> set line_cut"
  by (simp add: line_cut_def event_cut_def newline_def)

lemma process_line_hi:
  "process_line test_runtime line_hi out =
     Continue (out\<lparr>fullAssistantContent := fullAssistantContent out @ ''Hi'',
                   yielded := yielded out @ [JStr ''Hi'']\<rparr>)"
  unfolding line_hi_def by (rule process_hi)

lemma process_line_there:
  "process_line test_runtime line_there out =
     Continue (out\<lparr>fullAssistantContent := fullAssistantContent out @ '' there'',
                   yielded := yielded out @ [JStr '' there'']\<rparr>)"
  unfolding line_there_def by (rule process_there)

lemma complete_lines_empty: "complete_lines [] = []"
  by (simp add: complete_lines_def)

lemma cut_unparseable: "JSON_parse test_runtime event_cut = None"
  by (simp add: test_runtime_def test_parse_def event_cut_def event_hi_def event_there_def)

lemma read_hi_only:
  "read_loop test_runtime ascii_decoder fin [ascii_bytes (line_hi @ [newline])]
     (decoder_new ascii_decoder) [] out0 =
   (\<lparr>fullAssistantContent = ''Hi'', yielded = [JStr ''Hi'']\<rparr>, exit_of fin)"
  using decoded_ascii[of "decoder_new ascii_decoder" "[line_hi @ [newline]]"]
  by (simp add: read_loop_start translate_def complete_lines_line[OF line_hi_no_newline]
      complete_lines_empty process_line_hi out0_def del: read_loop.simps)

lemma read_hi_there:
  "read_loop test_runtime ascii_decoder fin [ascii_bytes (line_hi @ newline # line_there @ [newline])]
     (decoder_new ascii_decoder) [] out0 =
   (\<lparr>fullAssistantContent = ''Hi there'', yielded = [JStr ''Hi'', JStr '' there'']\<rparr>, exit_of fin)"
  using decoded_ascii[of "decoder_new ascii_decoder" "[line_hi @ newline # line_there @ [newline]]"]
  by (simp add: read_loop_start translate_def complete_lines_line[OF line_hi_no_newline]
      complete_lines_line[OF line_there_no_newline]
      complete_lines_empty process_line_hi process_line_there out0_def del: read_loop.simps)

lemma read_done_only:
  "read_loop test_runtime ascii_decoder fin [ascii_bytes (line_done @ [newline])]
     (decoder_new ascii_decoder) [] out0 = (out0, ByReturn)"
proof -
  have n: "newline \<notin> set line_done" by (simp add: line_done_def newline_def)
  have "complete_lines (line_done @ newline # []) = [''data: [DONE]'']"
    by (simp only: complete_lines_line[OF n] complete_lines_empty) (simp add: line_done_def)
  then show ?thesis
    using decoded_ascii[of "decoder_new ascii_decoder" "[line_done @ [newline]]"]
      process_lines_done[of test_runtime "[]" "[]" out0]
    by (simp add: read_loop_start translate_def del: read_loop.simps)
qed

lemma test_run:
  assumes "read_loop test_runtime ascii_decoder fin cs (decoder_new ascii_decoder) [] out0 =
           (out, how)"
  shows "chatStream test_runtime test_platform ascii_decoder test_now test_request_id
           test_session ''Hello'' (ok_body cs fin) =
         \<lparr>emitted = yielded out,
          thrown = (if how = ByThrow then Some ReadFailed else None),
          session_after =
            test_session\<lparr>messages :=
              \<lparr>role = ''user'', content = ''Hello''\<rparr> #
                (if fullAssistantContent out \<noteq> [] then
                   [\<lparr>role = ''assistant'', content = fullAssistantContent out\<rparr>]
                 else [])\<rparr>\<rparr>"
  using assms
  by (subst chatStream_signed[OF test_session_signs])
     (simp add: out0_def test_session_def del: read_loop.simps)

lemma chatStream_flags:
  "emitted (chatStream rt P dec now rid (s\<lparr>model := m, use_web_search := a, use_thinking := b\<rparr>)
      prompt upstream) = emitted (chatStream rt P dec now rid s prompt upstream) \<and>
   thrown (chatStream rt P dec now rid (s\<lparr>model := m, use_web_search := a, use_thinking := b\<rparr>)
      prompt upstream) = thrown (chatStream rt P dec now rid s prompt upstream)"
  by (simp add: chatStream_def Let_def del: read_loop.simps
      split: option.splits fetch_outcome.splits prod.splits)

lemma lower_hello: "toLowerCase ''Hello'' = ''hello''"
  by (simp add: toLowerCase_def lower_char_def char_of_def bit_iff_odd)

lemma hello_flags:
  "\<not> includes_str (toLowerCase ''Hello'') ''search''"
  "\<not> includes_str (toLowerCase ''Hello'') ''think''"
  by (simp_all add: lower_hello includes_str_def upt_rec)

lemma test_session_defaults:
  "test_session\<lparr>model := ''glm-4.7'', use_web_search := False, use_thinking := False\<rparr> =
   test_session"
  by (simp add: test_session_def)

lemma hi_there_run:
  "chatStream test_runtime test_platform ascii_decoder test_now test_request_id test_session
     ''Hello'' hi_there_upstream =
   \<lparr>emitted = [JStr ''Hi'', JStr '' there''], thrown = None,
    session_after =
      test_session\<lparr>messages :=
        [\<lparr>role = ''user'', content = ''Hello''\<rparr>,
         \<lparr>role = ''assistant'', content = ''Hi there''\<rparr>]\<rparr>\<rparr>"
  unfolding hi_there_upstream_def
  by (simp add: test_run[OF read_hi_there] exit_of_def)

section \<open>The signer and start-up on the examples\<close>

lemma sorted_metadata:
  "sort_key fst [(''timestamp'', ts), (''requestId'', rid), (''user_id'', uid)] =
     [(''requestId'', rid), (''timestamp'', ts), (''user_id'', uid)]"
  by (simp add: less_char_def less_eq_char_def)

lemma spec_canonical_string_eq:
  "spec_canonical_string ts rid uid b64 =
     join '','' (map (\<lambda>(k, v). k @ '','' @ v)
       (sort_entries [(''timestamp'', ts), (''requestId'', rid), (''user_id'', uid)]))
     @ ''|'' @ b64 @ ''|'' @ ts"
  by (simp only: spec_canonical_string_def sorted_metadata sort_entries_metadata)

lemma length_ascii_bytes: "length (ascii_bytes s) = length s"
  by (simp add: ascii_bytes_def)

lemma length_digest_bucket: "length digest_bucket = 32"
  by (simp add: digest_bucket_def)

lemma digest_bucket_not_ascii: "length s \<noteq> 32 \<Longrightarrow> digest_bucket \<noteq> ascii_bytes s"
  using length_ascii_bytes[of s] length_digest_bucket by metis

lemma hex_digest_raw_keyed:
  "hex_of_bytes digest_raw_keyed =
     ''af02b238882de8f39f41b41b514207e64b41e9f449ff6629233142d376404f3f''"
  by (simp add: hex_of_bytes_def digest_raw_keyed_def padStart2_def toString16_def hex_digit_def
      char_of_def bit_iff_odd)

lemma test_canonical_spec:
  "spec_canonical_string ''1700000000000'' test_request_id ''42'' ''SGVsbG8='' = test_canonical"
  by (simp only: spec_canonical_string_eq sort_entries_metadata test_data_to_sign)

lemma test_first_hmac:
  "subtle_hmac test_platform (encoder_encode test_platform test_salt)
     (encoder_encode test_platform ''5666666'') = Some digest_bucket"
  by (simp add: test_platform_def test_hmac_def)

lemma test_raw_keyed_hmac:
  "subtle_hmac test_platform digest_bucket (encoder_encode test_platform test_canonical) =
     Some digest_raw_keyed"
  by (simp add: test_platform_def test_hmac_def digest_bucket_not_ascii test_salt_def)

lemma test_signature_raw_key:
  "signature_raw_key test_platform test_now test_request_id ''Hello'' ''42'' test_salt =
     Some ''af02b238882de8f39f41b41b514207e64b41e9f449ff6629233142d376404f3f''"
  unfolding signature_raw_key_def
  by (simp only: test_bucket_text test_first_hmac option.case trim_hello test_base64
      test_timestamp test_canonical_spec test_raw_keyed_hmac option.map hex_digest_raw_keyed)

lemma bucket_key_eq_iff:
  "bucket_key P secret ts1 = bucket_key P secret ts2 \<longleftrightarrow>
   subtle_hmac P (encoder_encode P secret) (encoder_encode P (bucket_text ts1)) =
   subtle_hmac P (encoder_encode P secret) (encoder_encode P (bucket_text ts2))"
  by (auto simp: bucket_key_def generateHmacSignature_def hex_of_bytes_inj
      option.map_sel map_option_case split: option.splits)

lemma test_next_bucket_text: "string_of_nat ((test_now + 100000) div 300000) = ''5666667''"
  by (simp add: test_now_def string_of_nat.simps digit_char_values)

lemma test_same_bucket: "(test_now + 99999) div 300000 = test_now div 300000"
  "(test_now + 100000) div 300000 \<noteq> test_now div 300000"
  by (simp_all add: test_now_def)

lemma hex_digest_next_bucket:
  "hex_of_bytes digest_next_bucket =
     ''02206e13ee80e88ccb278c5e704b34a0afac5e9f8a0cfaffe9b91d3f5769e4d7''"
  by (simp add: hex_of_bytes_def digest_next_bucket_def padStart2_def toString16_def hex_digit_def
      char_of_def bit_iff_odd)

lemma test_bucket_keys:
  "bucket_key test_platform test_salt (string_of_nat test_now) =
     Some ''e37c98fb931005cbfac88fc6d9f09a459c0645f25d89a6c059f56417af6f260b''"
  "bucket_key test_platform test_salt (string_of_nat (test_now + 100000)) =
     Some ''02206e13ee80e88ccb278c5e704b34a0afac5e9f8a0cfaffe9b91d3f5769e4d7''"
  by (simp_all add: bucket_key_def bucket_text_string_of_nat test_bucket_text
      test_next_bucket_text generateHmacSignature_def test_platform_def test_hmac_def
      hex_digest_bucket hex_digest_next_bucket ascii_bytes_inj)

text \<open>
  The bucket key over the five-minute windows (lines 209 to 213). Time stamps of one
  window print the same window and get the same key. Time stamps of different windows
  print different windows, so the HMAC is given different messages; the two keys are
  then equal exactly when the platform's HMAC under the secret returns the same result
  for both messages. Whether HMAC-SHA256 does so for two windows of a clock is a
  property of that function, which these lemmas leave open.
\<close>

lemma bucket_key_same_window:
  "t1 div 300000 = t2 div 300000 \<Longrightarrow>
   bucket_key P secret (string_of_nat t1) = bucket_key P secret (string_of_nat t2)"
  by (simp add: bucket_key_def bucket_text_string_of_nat)

lemma bucket_text_other_window:
  "t1 div 300000 \<noteq> t2 div 300000 \<Longrightarrow>
   bucket_text (string_of_nat t1) \<noteq> bucket_text (string_of_nat t2)"
  by (simp add: bucket_text_string_of_nat string_of_nat_inj)

lemma test_bucket_key_windows:
  "bucket_key test_platform test_salt (string_of_nat (test_now + 99999)) =
     bucket_key test_platform test_salt (string_of_nat test_now)"
  "bucket_key test_platform test_salt (string_of_nat (test_now + 100000)) \<noteq>
     bucket_key test_platform test_salt (string_of_nat test_now)"
  using bucket_key_same_window[of "test_now + 99999" test_now test_platform test_salt]
    test_same_bucket(1) test_bucket_keys
  by simp_all

lemma first_of_split:
  "(case split_on sep s of [] \<Rightarrow> [] | first # _ \<Rightarrow> first) = takeWhile (\<lambda>c. c \<noteq> sep) s"
  using hd_split_on[of sep s] split_on_nonempty[of sep s]
  by (cases "split_on sep s") simp_all

lemma split_test_token:
  "split_on (CHR ''.'') test_token =
     [''eyJhbGciOiJIUzI1NiIsInR5cCI6IkpXVCJ9'',
      ''eyJpZCI6IjQyIiwiZW1haWwiOiJhbm5AZXhhbXBsZS5jb20ifQ'', ''c2ln'']"
  by (simp add: test_token_def)

lemma split_test_token_48:
  "split_on (CHR ''.'') test_token_48 =
     [''eyJhbGciOiJIUzI1NiIsInR5cCI6IkpXVCJ9'',
      ''eyJpZCI6IjQyIiwiZW1haWwiOiJhbEBleGFtcGxlLmNvbSJ9'', ''c2ln'']"
  by (simp add: test_token_48_def)

lemma test_decode_payload:
  "base64Decode test_platform (''eyJpZCI6IjQyIiwiZW1haWwiOiJhbm5AZXhhbXBsZS5jb20ifQ'' @ ''=='') =
     Some test_payload"
  by (simp add: base64Decode_def test_platform_def)

lemma test_decode_fails:
  "base64Decode test_platform (''eyJpZCI6IjQyIiwiZW1haWwiOiJhbEBleGFtcGxlLmNvbSJ9'' @ ''=='') = None"
  by (simp add: base64Decode_def test_platform_def)

lemma test_claims:
  "JSON_parse_claims test_platform test_payload =
     Some \<lparr>claim_id = Some ''42'', claim_email = Some ''ann@example.com''\<rparr>"
  by (simp add: test_platform_def)

lemma test_obtain:
  "obtain_token (AuthReply True (Some t)) AuthFails = t"
  by (simp add: obtain_token_def guest_token_def)

text \<open>Start-up on \<open>test_token\<close> returns \<open>test_session\<close>.\<close>

lemma test_session_initialized:
  "initializeZChat test_platform PageFails ''c0'' (AuthReply False None)
     (AuthReply True (Some test_token)) = test_session"
proof -
  have n: "test_token \<noteq> []" by (simp add: test_token_def)
  have d: "base64Decode test_platform
             ''eyJpZCI6IjQyIiwiZW1haWwiOiJhbm5AZXhhbXBsZS5jb20ifQ=='' = Some test_payload"
    using test_decode_payload by simp
  show ?thesis
    using n
    by (simp add: initializeZChat_def scrapeConfig_def obtain_token_def guest_token_def
        decode_identity_def split_test_token d test_claims Let_def
        test_session_def test_salt_def)
qed

chapter \<open>Properties\<close>

section \<open>The stream translator\<close>

text \<open>
  Claim C1. For every upstream byte stream, delivering it to the read loop of
  \<open>chatStream\<close> split at arbitrary chunk boundaries, also inside a JSON object and inside
  a line, produces the same emitted deltas as delivering the same bytes as one chunk.
  The decoder is any streaming decoder; the whole result of the loop and the whole run
  of \<open>chatStream\<close> (values yielded, exception, session) are the same.
\<close>

theorem chunk_boundaries:
  assumes "streaming dec"
  shows "read_loop rt dec fin cs (decoder_new dec) [] out =
         read_loop rt dec fin [concat cs] (decoder_new dec) [] out \<and>
         chatStream rt P dec now rid s prompt (ok_body cs fin) =
         chatStream rt P dec now rid s prompt (ok_body [concat cs] fin)"
proof -
  have "decoded_text dec d cs = decoded_text dec d [concat cs]" for d
    using decoded_text_concat[OF assms, of d cs] by (simp split: prod.splits)
  then have eq: "read_loop rt dec fin cs d [] out' = read_loop rt dec fin [concat cs] d [] out'"
    for d out'
    by (simp only: read_loop_start)
  show ?thesis
    using eq chatStream_body_cong[OF eq] by blast
qed

theorem chunk_boundaries_witness:
  "streaming ascii_decoder \<and>
   read_loop test_runtime ascii_decoder Closed (map ascii_bytes [chunk_a, chunk_b, chunk_c])
       (decoder_new ascii_decoder) [] out0 =
     read_loop test_runtime ascii_decoder Closed
       [concat (map ascii_bytes [chunk_a, chunk_b, chunk_c])] (decoder_new ascii_decoder) [] out0 \<and>
   read_loop test_runtime ascii_decoder Closed (map ascii_bytes [chunk_a, chunk_b, chunk_c])
       (decoder_new ascii_decoder) [] out0 =
     (\<lparr>fullAssistantContent = ''Hi there'', yielded = [JStr ''Hi'', JStr '' there'']\<rparr>, ByBreak)"
proof -
  have "read_loop test_runtime ascii_decoder Closed (map ascii_bytes [chunk_a, chunk_b, chunk_c])
          (decoder_new ascii_decoder) [] out0 =
        (\<lparr>fullAssistantContent = ''Hi there'', yielded = [JStr ''Hi'', JStr '' there'']\<rparr>, ByBreak)"
    using translate_hi_there[of Closed]
    by (simp only: read_loop_start decoded_ascii concat.simps append_Nil2 chunks_text)
       (simp add: exit_of_def)
  with streaming_ascii
    chunk_boundaries[OF streaming_ascii, of test_runtime Closed
      "map ascii_bytes [chunk_a, chunk_b, chunk_c]" out0]
  show ?thesis by blast
qed

text \<open>
  Claim C4. Once the translator has seen a complete line \<open>data: [DONE]\<close> it emits
  nothing more. Whatever the chunks, when the decoded text is \<open>pre\<close>, then the line
  \<open>data: [DONE]\<close> with its newline, then \<open>post\<close>, the loop returns with exactly the
  output of the complete lines of \<open>pre\<close>: no line of \<open>post\<close> contributes.
\<close>

theorem done_stops:
  assumes "decoded_text dec (decoder_new dec) cs = pre @ ''data: [DONE]'' @ newline # post"
    and "pre = [] \<or> last pre = newline"
  shows "read_loop rt dec fin cs (decoder_new dec) [] out =
         (fst (process_lines rt (complete_lines pre) out), ByReturn)"
proof -
  have "newline \<notin> set ''data: [DONE]''" by (simp add: newline_def)
  then have "complete_lines (pre @ ''data: [DONE]'' @ newline # post) =
        complete_lines pre @ ''data: [DONE]'' # complete_lines post"
    using complete_lines_after[OF assms(2)] complete_lines_line by metis
  then show ?thesis
    by (simp add: read_loop_start assms(1) translate_def process_lines_done)
qed

theorem done_stops_witness:
  "decoded_text ascii_decoder (decoder_new ascii_decoder)
     (map ascii_bytes [line_hi @ newline # ''data: [DONE]'' @ [newline], line_there @ [newline]]) =
     (line_hi @ [newline]) @ ''data: [DONE]'' @ newline # (line_there @ [newline]) \<and>
   (line_hi @ [newline] = [] \<or> last (line_hi @ [newline]) = newline) \<and>
   read_loop test_runtime ascii_decoder Closed
     (map ascii_bytes [line_hi @ newline # ''data: [DONE]'' @ [newline], line_there @ [newline]])
     (decoder_new ascii_decoder) [] out0 =
   (\<lparr>fullAssistantContent = ''Hi'', yielded = [JStr ''Hi'']\<rparr>, ByReturn)"
proof -
  have h1: "decoded_text ascii_decoder (decoder_new ascii_decoder)
     (map ascii_bytes [line_hi @ newline # ''data: [DONE]'' @ [newline], line_there @ [newline]]) =
     (line_hi @ [newline]) @ ''data: [DONE]'' @ newline # (line_there @ [newline])"
    using decoded_ascii[of "decoder_new ascii_decoder"
        "[line_hi @ newline # ''data: [DONE]'' @ [newline], line_there @ [newline]]"]
    by simp
  have h2: "line_hi @ [newline] = [] \<or> last (line_hi @ [newline]) = newline" by simp
  have "fst (process_lines test_runtime (complete_lines (line_hi @ [newline])) out0) =
        \<lparr>fullAssistantContent = ''Hi'', yielded = [JStr ''Hi'']\<rparr>"
    by (simp add: complete_lines_line[OF line_hi_no_newline] complete_lines_empty
        process_line_hi out0_def)
  with h1 h2 done_stops[OF h1 h2, of test_runtime Closed out0] show ?thesis
    by (simp del: read_loop.simps)
qed

text \<open>
  Claim C7. A complete \<open>data: \<close> line whose payload is neither \<open>[DONE]\<close> nor text that
  \<open>JSON.parse\<close> accepts is skipped: the line leaves the output as it is and the loop
  goes on, the lines around it are processed as if it were not there, and the read loop
  gives the result it gives for the stream without that line (same values yielded,
  same way out, no exception of its own).
\<close>

theorem malformed_skipped:
  assumes "JSON_parse rt payload = None" and "payload \<noteq> ''[DONE]''"
    and "newline \<notin> set payload"
    and "decoded_text dec (decoder_new dec) cs = pre @ (''data: '' @ payload) @ newline # post"
    and "pre = [] \<or> last pre = newline"
    and "decoded_text dec (decoder_new dec) cs' = pre @ post"
  shows "process_line rt (''data: '' @ payload) out = Continue out \<and>
         process_lines rt (before @ (''data: '' @ payload) # after) out =
           process_lines rt (before @ after) out \<and>
         read_loop rt dec fin cs (decoder_new dec) [] out =
           read_loop rt dec fin cs' (decoder_new dec) [] out"
proof -
  define l where "l = ''data: '' @ payload"
  have skip: "process_line rt l = Continue"
    unfolding l_def using process_line_malformed[OF assms(1,2)] by (intro ext)
  have nl: "newline \<notin> set l" using assms(3) by (simp add: l_def newline_def)
  have "complete_lines (pre @ l @ newline # post) = complete_lines pre @ l # complete_lines post"
    using complete_lines_after[OF assms(5)] complete_lines_line[OF nl] by metis
  moreover have "complete_lines (pre @ post) = complete_lines pre @ complete_lines post"
    by (rule complete_lines_after[OF assms(5)])
  ultimately have "translate rt fin (pre @ l @ newline # post) out = translate rt fin (pre @ post) out"
    by (simp add: translate_def process_lines_skip[OF skip])
  then have "read_loop rt dec fin cs (decoder_new dec) [] out =
           read_loop rt dec fin cs' (decoder_new dec) [] out"
    using assms(4,6) by (simp only: read_loop_start l_def)
  moreover have "process_line rt (''data: '' @ payload) out = Continue out"
    by (rule process_line_malformed[OF assms(1,2)])
  moreover have "process_lines rt (before @ (''data: '' @ payload) # after) out =
           process_lines rt (before @ after) out"
    using process_lines_skip[OF skip] by (simp only: l_def)
  ultimately show ?thesis by blast
qed

theorem malformed_skipped_witness:
  "JSON_parse test_runtime event_cut = None \<and> event_cut \<noteq> ''[DONE]'' \<and>
   newline \<notin> set event_cut \<and>
   decoded_text ascii_decoder (decoder_new ascii_decoder)
     [ascii_bytes (line_hi @ newline # line_cut @ newline # line_there @ [newline])] =
     (line_hi @ [newline]) @ (''data: '' @ event_cut) @ newline # (line_there @ [newline]) \<and>
   (line_hi @ [newline] = [] \<or> last (line_hi @ [newline]) = newline) \<and>
   decoded_text ascii_decoder (decoder_new ascii_decoder)
     [ascii_bytes (line_hi @ newline # line_there @ [newline])] =
     (line_hi @ [newline]) @ (line_there @ [newline]) \<and>
   process_line test_runtime (''data: '' @ event_cut) out0 = Continue out0 \<and>
   read_loop test_runtime ascii_decoder Closed
     [ascii_bytes (line_hi @ newline # line_cut @ newline # line_there @ [newline])]
     (decoder_new ascii_decoder) [] out0 =
   (\<lparr>fullAssistantContent = ''Hi there'', yielded = [JStr ''Hi'', JStr '' there'']\<rparr>, ByBreak)"
proof -
  have h2: "event_cut \<noteq> ''[DONE]''" by (simp add: event_cut_def)
  have h3: "newline \<notin> set event_cut" by (simp add: event_cut_def newline_def)
  have h4: "decoded_text ascii_decoder (decoder_new ascii_decoder)
     [ascii_bytes (line_hi @ newline # line_cut @ newline # line_there @ [newline])] =
     (line_hi @ [newline]) @ (''data: '' @ event_cut) @ newline # (line_there @ [newline])"
    using decoded_ascii[of "decoder_new ascii_decoder"
        "[line_hi @ newline # line_cut @ newline # line_there @ [newline]]"]
    by (simp add: line_cut_def)
  have h5: "line_hi @ [newline] = [] \<or> last (line_hi @ [newline]) = newline" by simp
  have h6: "decoded_text ascii_decoder (decoder_new ascii_decoder)
     [ascii_bytes (line_hi @ newline # line_there @ [newline])] =
     (line_hi @ [newline]) @ (line_there @ [newline])"
    using decoded_ascii[of "decoder_new ascii_decoder" "[line_hi @ newline # line_there @ [newline]]"]
    by simp
  from malformed_skipped[OF cut_unparseable h2 h3 h4 h5 h6, of out0 "[]" "[]" Closed]
    read_hi_there[of Closed] cut_unparseable h2 h3 h4 h5 h6
  show ?thesis by (simp add: exit_of_def del: read_loop.simps)
qed

text \<open>
  Claim C10. What the stream holds after its last newline when it closes is never
  processed: a stream that ends in an unterminated \<open>tail\<close> gives the result of the
  stream without the tail, in the read loop and in the whole run of \<open>chatStream\<close>, so a
  delta in the tail is neither yielded nor recorded in the assistant message.
\<close>

theorem unterminated_tail_dropped:
  assumes "decoded_text dec (decoder_new dec) cs = decoded_text dec (decoder_new dec) cs' @ tail"
    and "newline \<notin> set tail"
  shows "read_loop rt dec fin cs (decoder_new dec) [] out =
           read_loop rt dec fin cs' (decoder_new dec) [] out \<and>
         chatStream rt P dec now rid s prompt (ok_body cs fin) =
           chatStream rt P dec now rid s prompt (ok_body cs' fin)"
proof -
  let ?t = "decoded_text dec (decoder_new dec) cs'"
  have "complete_lines (?t @ tail) = complete_lines ?t"
    using complete_lines_append[of ?t tail] residue_no_newline[of ?t] assms(2)
    by (simp add: complete_lines_no_newline)
  then have eq: "read_loop rt dec fin cs (decoder_new dec) [] out' =
           read_loop rt dec fin cs' (decoder_new dec) [] out'" for out'
    by (simp add: read_loop_start assms(1) translate_def)
  show ?thesis using eq chatStream_body_cong[OF eq] by blast
qed

theorem unterminated_tail_dropped_witness:
  "decoded_text ascii_decoder (decoder_new ascii_decoder)
     [ascii_bytes (line_hi @ newline # line_there)] =
   decoded_text ascii_decoder (decoder_new ascii_decoder)
     [ascii_bytes (line_hi @ [newline])] @ line_there \<and>
   newline \<notin> set line_there \<and>
   read_loop test_runtime ascii_decoder Closed [ascii_bytes (line_hi @ newline # line_there)]
     (decoder_new ascii_decoder) [] out0 =
   (\<lparr>fullAssistantContent = ''Hi'', yielded = [JStr ''Hi'']\<rparr>, ByBreak) \<and>
   read_loop test_runtime ascii_decoder Closed
     [ascii_bytes (line_hi @ newline # line_there @ [newline])]
     (decoder_new ascii_decoder) [] out0 =
   (\<lparr>fullAssistantContent = ''Hi there'', yielded = [JStr ''Hi'', JStr '' there'']\<rparr>, ByBreak) \<and>
   messages (session_after
     (chatStream test_runtime test_platform ascii_decoder test_now test_request_id test_session
        ''Hello'' (ok_body [ascii_bytes (line_hi @ newline # line_there)] Closed))) =
   [\<lparr>role = ''user'', content = ''Hello''\<rparr>, \<lparr>role = ''assistant'', content = ''Hi''\<rparr>]"
proof -
  have h1: "decoded_text ascii_decoder (decoder_new ascii_decoder)
     [ascii_bytes (line_hi @ newline # line_there)] =
   decoded_text ascii_decoder (decoder_new ascii_decoder)
     [ascii_bytes (line_hi @ [newline])] @ line_there"
    using decoded_ascii[of "decoder_new ascii_decoder" "[line_hi @ newline # line_there]"]
      decoded_ascii[of "decoder_new ascii_decoder" "[line_hi @ [newline]]"]
    by simp
  note t = unterminated_tail_dropped[OF h1 line_there_no_newline,
      of test_runtime Closed _ test_platform test_now test_request_id test_session "''Hello''"]
  have r: "read_loop test_runtime ascii_decoder Closed [ascii_bytes (line_hi @ newline # line_there)]
     (decoder_new ascii_decoder) [] out0 =
   (\<lparr>fullAssistantContent = ''Hi'', yielded = [JStr ''Hi'']\<rparr>, ByBreak)"
    using t[of out0] read_hi_only[of Closed] by (simp add: exit_of_def del: read_loop.simps)
  have m: "messages (session_after
     (chatStream test_runtime test_platform ascii_decoder test_now test_request_id test_session
        ''Hello'' (ok_body [ascii_bytes (line_hi @ newline # line_there)] Closed))) =
   [\<lparr>role = ''user'', content = ''Hello''\<rparr>, \<lparr>role = ''assistant'', content = ''Hi''\<rparr>]"
    using r
    by (subst chatStream_signed[OF test_session_signs])
       (simp add: out0_def test_session_def del: read_loop.simps)
  from h1 line_there_no_newline r read_hi_there[of Closed] m show ?thesis
    by (simp add: exit_of_def del: read_loop.simps)
qed

section \<open>The transcript of the session\<close>

text \<open>
  Claim C3, as the code has it. In one exchange \<open>chatStream\<close> appends the user entry
  before anything else, and when the generator ends (the stream closed, \<open>[DONE]\<close> seen,
  a read failed, or the request failed before any read) it appends one assistant entry
  whose content is the concatenation of the deltas emitted, provided that text is not
  empty; when nothing was emitted it appends no assistant entry. Nothing else is added
  to the transcript.
\<close>

theorem messages_growth:
  "\<exists>t. join_chunks rt (emitted (chatStream rt P dec now rid s prompt upstream)) = Some t \<and>
       messages (session_after (chatStream rt P dec now rid s prompt upstream)) =
         messages s @ \<lparr>role = ''user'', content = prompt\<rparr> #
           (if t = [] then [] else [\<lparr>role = ''assistant'', content = t\<rparr>])"
proof -
  let ?out0 = "\<lparr>fullAssistantContent = [], yielded = []\<rparr> :: 'a gen_out"
  have c0: "consistent rt ?out0" by (simp add: consistent_def)
  have "consistent rt (fst (read_loop rt dec fin cs (decoder_new dec) [] ?out0))" for fin cs
    by (rule read_loop_consistent[OF c0])
  then have "join_chunks rt (yielded out) = Some (fullAssistantContent out)"
    if "read_loop rt dec fin cs (decoder_new dec) [] ?out0 = (out, how)" for fin cs out how
    using that by (metis consistent_def fst_conv)
  then show ?thesis
    by (auto simp: chatStream_def Let_def simp del: read_loop.simps
        split: option.splits fetch_outcome.splits prod.splits)
qed

theorem messages_growth_witness:
  "join_chunks test_runtime
     (emitted (chatStream test_runtime test_platform ascii_decoder test_now test_request_id
        test_session ''Hello'' (ok_body [ascii_bytes (line_hi @ [newline])] ReadFails))) =
     Some ''Hi'' \<and>
   thrown (chatStream test_runtime test_platform ascii_decoder test_now test_request_id
        test_session ''Hello'' (ok_body [ascii_bytes (line_hi @ [newline])] ReadFails)) =
     Some ReadFailed \<and>
   messages (session_after
     (chatStream test_runtime test_platform ascii_decoder test_now test_request_id
        test_session ''Hello'' (ok_body [ascii_bytes (line_hi @ [newline])] ReadFails))) =
     [\<lparr>role = ''user'', content = ''Hello''\<rparr>, \<lparr>role = ''assistant'', content = ''Hi''\<rparr>]"
proof -
  let ?run = "chatStream test_runtime test_platform ascii_decoder test_now test_request_id
        test_session ''Hello'' (ok_body [ascii_bytes (line_hi @ [newline])] ReadFails)"
  have e: "emitted ?run = [JStr ''Hi'']" and t: "thrown ?run = Some ReadFailed"
    by (simp_all add: test_run[OF read_hi_only] exit_of_def)
  have j: "join_chunks test_runtime [JStr ''Hi''] = Some ''Hi''"
    by (simp add: chunk_text_def)
  from messages_growth[of test_runtime test_platform ascii_decoder test_now test_request_id
      test_session "''Hello''" "ok_body [ascii_bytes (line_hi @ [newline])] ReadFails"]
  obtain tx where "join_chunks test_runtime (emitted ?run) = Some tx"
    and m: "messages (session_after ?run) =
         messages test_session @ \<lparr>role = ''user'', content = ''Hello''\<rparr> #
           (if tx = [] then [] else [\<lparr>role = ''assistant'', content = tx\<rparr>])"
    by blast
  with e j have "tx = ''Hi''" by simp
  with m e j t show ?thesis by (simp add: test_session_def)
qed

text \<open>
  The claim as stated, with an assistant entry after every exchange, fails on a stream
  that holds the terminator only: the exchange completes without an exception and the
  transcript has grown by the user entry alone.
\<close>

theorem assistant_entry_counterexample:
  "messages test_session = [] \<and>
   thrown (chatStream test_runtime test_platform ascii_decoder test_now test_request_id
        test_session ''Hello'' (ok_body [ascii_bytes (line_done @ [newline])] Closed)) = None \<and>
   messages (session_after
     (chatStream test_runtime test_platform ascii_decoder test_now test_request_id
        test_session ''Hello'' (ok_body [ascii_bytes (line_done @ [newline])] Closed))) =
     [\<lparr>role = ''user'', content = ''Hello''\<rparr>]"
  by (simp add: test_run[OF read_done_only] out0_def) (simp add: test_session_def)

section \<open>The API key check\<close>

text \<open>
  Claim C5. On every path but the root: a request without an Authorization header is
  answered 401; so is one whose header does not begin with \<open>Bearer \<close>; so is one whose
  key (the rest of the header, trimmed) does not begin with \<open>sk-\<close>; with no server key
  configured every key that begins with \<open>sk-\<close> passes and the request proceeds; with a
  server key configured the key passes exactly when it also equals the server key, and
  is answered 401 otherwise.
\<close>

theorem validateApiKey_cases:
  assumes "path req \<noteq> ''/''"
  shows "(authorization req = None \<longrightarrow>
            validateApiKey K req = Reject 401 ''Missing Authorization header'') \<and>
         (\<forall>h. authorization req = Some h \<and> \<not> startsWith h ''Bearer '' \<longrightarrow>
            (\<exists>m. validateApiKey K req = Reject 401 m)) \<and>
         (\<forall>h. authorization req = Some h \<and> startsWith h ''Bearer '' \<and>
              \<not> startsWith (trim (drop 7 h)) ''sk-'' \<longrightarrow>
            (\<exists>m. validateApiKey K req = Reject 401 m)) \<and>
         (\<forall>h. authorization req = Some h \<and> startsWith h ''Bearer '' \<and>
              startsWith (trim (drop 7 h)) ''sk-'' \<and> (K = None \<or> K = Some []) \<longrightarrow>
            validateApiKey K req = Next) \<and>
         (\<forall>h k. authorization req = Some h \<and> startsWith h ''Bearer '' \<and>
              startsWith (trim (drop 7 h)) ''sk-'' \<and> K = Some k \<and> k \<noteq> [] \<longrightarrow>
            validateApiKey K req =
              (if trim (drop 7 h) = k then Next else Reject 401 ''Invalid API key''))"
  using assms
  by (auto simp: validateApiKey_def Let_def startsWith_def split: option.splits)

theorem validateApiKey_cases_witness:
  "path (chat_request None) \<noteq> ''/'' \<and>
   validateApiKey None (chat_request None) = Reject 401 ''Missing Authorization header'' \<and>
   (\<exists>m. validateApiKey None (chat_request (Some ''Basic sk-anything'')) = Reject 401 m) \<and>
   (\<exists>m. validateApiKey None (chat_request (Some ''Bearer abc'')) = Reject 401 m) \<and>
   validateApiKey None (chat_request (Some ''Bearer sk-anything'')) = Next \<and>
   validateApiKey (Some ''sk-secret'') (chat_request (Some ''Bearer sk-anything'')) =
     Reject 401 ''Invalid API key'' \<and>
   validateApiKey (Some ''sk-secret'') (chat_request (Some ''Bearer sk-secret'')) = Next"
proof -
  have p: "path (chat_request h) \<noteq> ''/''" for h by (simp add: chat_request_def)
  have a: "authorization (chat_request h) = h" for h by (simp add: chat_request_def)
  have t1: "trim ''abc'' = ''abc''"
    and t2: "trim ''sk-anything'' = ''sk-anything''"
    and t3: "trim ''sk-secret'' = ''sk-secret''"
    by (simp_all add: trim_def is_space_def)
  have "validateApiKey None (chat_request None) = Reject 401 ''Missing Authorization header''"
    using validateApiKey_cases[OF p, of None None] by (simp add: a)
  moreover have "\<exists>m. validateApiKey None (chat_request (Some ''Basic sk-anything'')) = Reject 401 m"
    using validateApiKey_cases[OF p, of "Some ''Basic sk-anything''" None]
    by (simp add: a startsWith_def)
  moreover have "\<exists>m. validateApiKey None (chat_request (Some ''Bearer abc'')) = Reject 401 m"
    using validateApiKey_cases[OF p, of "Some ''Bearer abc''" None]
    by (simp add: a startsWith_def t1)
  moreover have "validateApiKey None (chat_request (Some ''Bearer sk-anything'')) = Next"
    using validateApiKey_cases[OF p, of "Some ''Bearer sk-anything''" None]
    by (simp add: a startsWith_def t2)
  moreover have "validateApiKey (Some ''sk-secret'') (chat_request (Some ''Bearer sk-anything'')) =
     Reject 401 ''Invalid API key''"
    using validateApiKey_cases[OF p, of "Some ''Bearer sk-anything''" "Some ''sk-secret''"]
    by (simp add: a startsWith_def t2)
  moreover have "validateApiKey (Some ''sk-secret'') (chat_request (Some ''Bearer sk-secret'')) = Next"
    using validateApiKey_cases[OF p, of "Some ''Bearer sk-secret''" "Some ''sk-secret''"]
    by (simp add: a startsWith_def t3)
  ultimately show ?thesis using p by blast
qed

section \<open>The non-streaming completion\<close>

text \<open>
  Claim C6. A non-streaming request with the one message \<open>{role: "user", content:
  "Hello"}\<close>, when the upstream yields exactly the deltas \<open>"Hi"\<close> and \<open>" there"\<close>, is
  answered with a completion whose only choice has the content \<open>"Hi there"\<close> and the
  finish reason \<open>"stop"\<close>, with 2 completion tokens (\<open>ceil(8/4)\<close>), 2 prompt tokens
  (\<open>ceil(5/4)\<close>) and their sum as the total.
\<close>

theorem nonstreaming_completion:
  assumes "req_messages body = [\<lparr>role = ''user'', content = ''Hello''\<rparr>]"
    and "req_stream body = None \<or> req_stream body = Some False"
    and "emitted (chatStream rt P dec now rid s0 ''Hello'' upstream) = [JStr ''Hi'', JStr '' there'']"
    and "thrown (chatStream rt P dec now rid s0 ''Hello'' upstream) = None"
  shows "\<exists>r c. chat_completions rt P dec now rid created_ms uuid body s0 upstream = Completion r \<and>
           choices r = [c] \<and>
           content (message c) = ''Hi there'' \<and>
           finish_reason c = ''stop'' \<and>
           completion_tokens (usage r) = 2 \<and>
           prompt_tokens (usage r) = 2 \<and>
           total_tokens (usage r) = prompt_tokens (usage r) + completion_tokens (usage r)"
proof -
  have s: "(case req_stream body of None \<Rightarrow> False | Some b \<Rightarrow> b) = False"
    using assms(2) by auto
  show ?thesis
    unfolding chat_completions_def Let_def
    by (simp add: assms(1,3,4) s chunk_text_def chatStream_flags ceil_div4_def)
qed

theorem nonstreaming_completion_witness:
  "req_messages hello_request = [\<lparr>role = ''user'', content = ''Hello''\<rparr>] \<and>
   (req_stream hello_request = None \<or> req_stream hello_request = Some False) \<and>
   emitted (chatStream test_runtime test_platform ascii_decoder test_now test_request_id
     test_session ''Hello'' hi_there_upstream) = [JStr ''Hi'', JStr '' there''] \<and>
   thrown (chatStream test_runtime test_platform ascii_decoder test_now test_request_id
     test_session ''Hello'' hi_there_upstream) = None \<and>
   (\<exists>r c. chat_completions test_runtime test_platform ascii_decoder test_now test_request_id
            1700000001500 ''11111111-2222-4333-8444-555555555555'' hello_request test_session
            hi_there_upstream = Completion r \<and>
          choices r = [c] \<and> content (message c) = ''Hi there'' \<and>
          finish_reason c = ''stop'' \<and> completion_tokens (usage r) = 2 \<and>
          prompt_tokens (usage r) = 2 \<and>
          total_tokens (usage r) = prompt_tokens (usage r) + completion_tokens (usage r)) \<and>
   chat_completions test_runtime test_platform ascii_decoder test_now test_request_id
     1700000001500 ''11111111-2222-4333-8444-555555555555'' hello_request test_session
     hi_there_upstream =
   Completion
     \<lparr>response_id = ''chatcmpl-11111111222243338444555555555555'',
      object = ''chat.completion'', created = 1700000001, response_model = ''glm-4.7'',
      choices =
        [\<lparr>index = 0, message = \<lparr>role = ''assistant'', content = ''Hi there''\<rparr>,
          finish_reason = ''stop''\<rparr>],
      usage = \<lparr>prompt_tokens = 2, completion_tokens = 2, total_tokens = 4\<rparr>\<rparr>"
proof -
  have h1: "req_messages hello_request = [\<lparr>role = ''user'', content = ''Hello''\<rparr>]"
    by (simp add: hello_request_def)
  have h2: "req_stream hello_request = None \<or> req_stream hello_request = Some False"
    by (simp add: hello_request_def)
  have h3: "emitted (chatStream test_runtime test_platform ascii_decoder test_now test_request_id
     test_session ''Hello'' hi_there_upstream) = [JStr ''Hi'', JStr '' there'']"
    by (simp add: hi_there_run)
  have h4: "thrown (chatStream test_runtime test_platform ascii_decoder test_now test_request_id
     test_session ''Hello'' hi_there_upstream) = None"
    by (simp add: hi_there_run)
  have v: "chat_completions test_runtime test_platform ascii_decoder test_now test_request_id
     1700000001500 ''11111111-2222-4333-8444-555555555555'' hello_request test_session
     hi_there_upstream =
   Completion
     \<lparr>response_id = ''chatcmpl-11111111222243338444555555555555'',
      object = ''chat.completion'', created = 1700000001, response_model = ''glm-4.7'',
      choices =
        [\<lparr>index = 0, message = \<lparr>role = ''assistant'', content = ''Hi there''\<rparr>,
          finish_reason = ''stop''\<rparr>],
      usage = \<lparr>prompt_tokens = 2, completion_tokens = 2, total_tokens = 4\<rparr>\<rparr>"
    unfolding chat_completions_def Let_def
    by (simp add: hello_request_def hello_flags test_session_defaults hi_there_run
        chunk_text_def ceil_div4_def)
       (simp add: test_session_def)
  from nonstreaming_completion[OF h1 h2 h3 h4, of 1700000001500
      "''11111111-2222-4333-8444-555555555555''"] h1 h2 h3 h4 v
  show ?thesis by blast
qed

section \<open>The signer\<close>

text \<open>
  Claim C2, as the code has it. For every prompt, token, user id and shared secret, the
  signature that \<open>generateZaSignature\<close> produces is the hexadecimal text of
  HMAC-SHA256 of the canonical string (the metadata \<open>timestamp\<close>, \<open>requestId\<close>,
  \<open>user_id\<close> sorted by key and written as \<open>key,value\<close> pairs between commas, then \<open>|\<close>,
  the base64 text of the trimmed prompt, \<open>|\<close>, the time stamp), keyed with the bucket
  key as text: the 64 hexadecimal digits of HMAC-SHA256 of the printed window
  \<open>floor(timestamp / 300000)\<close> under the shared secret. The signer fails exactly when
  one of these platform calls fails.
\<close>

theorem signature_with_hex_key:
  "map_option signature (generateZaSignature P now rid prompt tok uid secret) =
     signature_hex_key P now rid prompt uid secret"
  unfolding generateZaSignature_def signature_hex_key_def Let_def bucket_key_def
    generateHmacSignature_def bucket_text_string_of_nat spec_canonical_string_eq
  by (simp split: option.splits)

theorem signature_with_hex_key_witness:
  "signature_hex_key test_platform test_now test_request_id ''Hello'' ''42'' test_salt =
     Some ''e9027f0bb34406b2bff37b26c8a44b38acee0e5919f77b90243c217429a9f6a2''"
  using signature_with_hex_key[of test_platform test_now test_request_id "''Hello''" test_token
      "''42''" test_salt]
    test_signing[of test_token]
  by simp

text \<open>
  The claim as stated keys the second HMAC with the first HMAC itself. On the example
  request, with the digests of HMAC-SHA256, that signature is not the one the code
  produces.
\<close>

theorem raw_key_counterexample:
  "map_option signature
     (generateZaSignature test_platform test_now test_request_id ''Hello'' test_token ''42''
        test_salt) =
     Some ''e9027f0bb34406b2bff37b26c8a44b38acee0e5919f77b90243c217429a9f6a2'' \<and>
   signature_raw_key test_platform test_now test_request_id ''Hello'' ''42'' test_salt =
     Some ''af02b238882de8f39f41b41b514207e64b41e9f449ff6629233142d376404f3f'' \<and>
   map_option signature
     (generateZaSignature test_platform test_now test_request_id ''Hello'' test_token ''42''
        test_salt) \<noteq>
   signature_raw_key test_platform test_now test_request_id ''Hello'' ''42'' test_salt"
  by (simp add: test_signing test_signature_raw_key)

section \<open>Start-up\<close>

text \<open>
  Claim C9, as the code has it. When a token of three segments is obtained and its
  middle segment fails to decode or to parse, \<open>initializeZChat\<close> still returns the
  session, with the token, an empty user id and the display name it started with,
  \<open>Guest\<close>. When decoding succeeds and the payload has a non-empty email claim, the
  display name is the part of the email before the first \<open>@\<close>, and the user id is
  the id claim (empty when absent); without such a claim the display name is \<open>Guest\<close>.
\<close>

theorem token_identity:
  assumes "obtain_token auths guest = tok" and "tok \<noteq> []"
    and "split_on (CHR ''.'') tok = [h, p, sg]"
  shows "token (initializeZChat P page cid auths guest) = tok \<and>
         ((base64Decode P (p @ ''=='') = None \<or>
           (\<exists>decoded. base64Decode P (p @ ''=='') = Some decoded \<and>
              JSON_parse_claims P decoded = None)) \<longrightarrow>
            user_id (initializeZChat P page cid auths guest) = [] \<and>
            user_name (initializeZChat P page cid auths guest) = ''Guest'') \<and>
         (\<forall>decoded c e.
            base64Decode P (p @ ''=='') = Some decoded \<and> JSON_parse_claims P decoded = Some c \<and>
            claim_email c = Some e \<and> e \<noteq> [] \<longrightarrow>
            user_name (initializeZChat P page cid auths guest) =
              takeWhile (\<lambda>x. x \<noteq> CHR ''@'') e \<and>
            user_id (initializeZChat P page cid auths guest) =
              (case claim_id c of None \<Rightarrow> [] | Some i \<Rightarrow> i)) \<and>
         (\<forall>decoded c.
            base64Decode P (p @ ''=='') = Some decoded \<and> JSON_parse_claims P decoded = Some c \<and>
            (claim_email c = None \<or> claim_email c = Some []) \<longrightarrow>
            user_name (initializeZChat P page cid auths guest) = ''Guest'')"
  using assms
  by (auto simp: initializeZChat_def decode_identity_def Let_def first_of_split
      split: prod.splits option.splits)

theorem token_identity_witness:
  "obtain_token (AuthReply True (Some test_token_48)) AuthFails = test_token_48 \<and>
   test_token_48 \<noteq> [] \<and>
   split_on (CHR ''.'') test_token_48 =
     [''eyJhbGciOiJIUzI1NiIsInR5cCI6IkpXVCJ9'',
      ''eyJpZCI6IjQyIiwiZW1haWwiOiJhbEBleGFtcGxlLmNvbSJ9'', ''c2ln''] \<and>
   base64Decode test_platform (''eyJpZCI6IjQyIiwiZW1haWwiOiJhbEBleGFtcGxlLmNvbSJ9'' @ ''=='') = None \<and>
   token (initializeZChat test_platform PageFails ''c0''
     (AuthReply True (Some test_token_48)) AuthFails) = test_token_48 \<and>
   user_id (initializeZChat test_platform PageFails ''c0''
     (AuthReply True (Some test_token_48)) AuthFails) = [] \<and>
   user_name (initializeZChat test_platform PageFails ''c0''
     (AuthReply True (Some test_token_48)) AuthFails) = ''Guest'' \<and>
   obtain_token (AuthReply False None) (AuthReply True (Some test_token)) = test_token \<and>
   user_id (initializeZChat test_platform PageFails ''c0''
     (AuthReply False None) (AuthReply True (Some test_token))) = ''42'' \<and>
   user_name (initializeZChat test_platform PageFails ''c0''
     (AuthReply False None) (AuthReply True (Some test_token))) = ''ann''"
proof -
  have n48: "test_token_48 \<noteq> []" by (simp add: test_token_48_def)
  have n: "test_token \<noteq> []" by (simp add: test_token_def)
  have o: "obtain_token (AuthReply False None) (AuthReply True (Some test_token)) = test_token"
    by (simp add: obtain_token_def guest_token_def)
  have e: "takeWhile (\<lambda>x. x \<noteq> CHR ''@'') ''ann@example.com'' = ''ann''" by simp
  note a = token_identity[OF test_obtain n48 split_test_token_48,
      of test_platform PageFails "''c0''"]
  note b = token_identity[OF o n split_test_token, of test_platform PageFails "''c0''"]
  from a test_decode_fails
  have "token (initializeZChat test_platform PageFails ''c0''
            (AuthReply True (Some test_token_48)) AuthFails) = test_token_48 \<and>
        user_id (initializeZChat test_platform PageFails ''c0''
            (AuthReply True (Some test_token_48)) AuthFails) = [] \<and>
        user_name (initializeZChat test_platform PageFails ''c0''
            (AuthReply True (Some test_token_48)) AuthFails) = ''Guest''"
    by blast
  moreover from b test_decode_payload test_claims e
  have "user_id (initializeZChat test_platform PageFails ''c0''
            (AuthReply False None) (AuthReply True (Some test_token))) = ''42'' \<and>
        user_name (initializeZChat test_platform PageFails ''c0''
            (AuthReply False None) (AuthReply True (Some test_token))) = ''ann''"
    by (auto simp del: takeWhile.simps)
  ultimately show ?thesis
    using test_obtain n48 split_test_token_48 test_decode_fails o by blast
qed

text \<open>
  The claim as stated, with an empty display name after a failed decoding, fails: the
  name is \<open>Guest\<close>.
\<close>

theorem display_name_counterexample:
  "obtain_token (AuthReply True (Some test_token_48)) AuthFails = test_token_48 \<and>
   length (split_on (CHR ''.'') test_token_48) = 3 \<and>
   base64Decode test_platform (split_on (CHR ''.'') test_token_48 ! 1 @ ''=='') = None \<and>
   user_name (initializeZChat test_platform PageFails ''c0''
     (AuthReply True (Some test_token_48)) AuthFails) = ''Guest'' \<and>
   user_name (initializeZChat test_platform PageFails ''c0''
     (AuthReply True (Some test_token_48)) AuthFails) \<noteq> []"
proof -
  have n48: "test_token_48 \<noteq> []" by (simp add: test_token_48_def)
  have "user_name (initializeZChat test_platform PageFails ''c0''
     (AuthReply True (Some test_token_48)) AuthFails) = ''Guest''"
    using test_decode_fails n48
    by (simp add: initializeZChat_def scrapeConfig_def test_obtain decode_identity_def
        split_test_token_48 Let_def)
  then show ?thesis
    using test_decode_fails by (simp add: test_obtain split_test_token_48)
qed

end
